theory Spec2Isabelle
  imports Complex_Main "HOL-Library.Char_ord" "HOL-Library.List_Lexorder"
    "HOL-Library.Product_Lexorder"
begin

section \<open>Water-use time series: data model\<close>

text \<open>
  The scripts hold their data in pandas DataFrames. A DataFrame is modelled as the list
  of its rows, in index order; a row is a record of the columns the script reads or
  writes. Floating-point columns are modelled over the reals, and a column that can hold
  NaN is a \<open>real option\<close> with \<open>None\<close> for NaN. Dates are \<open>datetime.date\<close> values
  coming from pandas Timestamps (years 1677 to 2262), so date arithmetic by one day or
  one year never leaves the range of \<open>datetime.date\<close>.
\<close>

record date =
  year :: int
  month :: nat
  day :: nat

record timestamp =
  ts_date :: date
  ts_seconds :: nat

text \<open>\<open>datetime.date\<close> values compare by year, then month, then day.\<close>

definition date_key :: "date \<Rightarrow> int \<times> nat \<times> nat" where
  "date_key d = (year d, month d, day d)"

text \<open>One row of the raw extraction: columns Measurement, DateTime, Value.\<close>

record reading =
  Measurement :: string
  DateTime :: timestamp
  Value :: real

text \<open>
  The dtype of the DateTime column matters to the \<open>.dt\<close> accessor: on a column of dtype
  object it raises AttributeError. \<open>pd.DataFrame(columns=[...])\<close> creates columns of
  dtype object; the frames returned by the Hilltop web service carry datetime64 values.
\<close>

datatype dtype = object_dtype | datetime64_dtype

record raw_frame =
  DateTime_dtype :: dtype
  readings :: "reading list"

datatype error = AttributeError | IndexError | DivisionByZero

text \<open>A row after unit normalisation: the raw columns plus Date and Vol.\<close>

record vol_row = reading +
  Date :: date
  Vol :: "real option"

section \<open>NaN-aware arithmetic and comparison\<close>

text \<open>Every comparison with NaN is false; arithmetic with NaN gives NaN.\<close>

fun nan_lt :: "real option \<Rightarrow> real option \<Rightarrow> bool" where
  "nan_lt (Some a) (Some b) = (a < b)"
| "nan_lt _ _ = False"

fun nan_le :: "real option \<Rightarrow> real option \<Rightarrow> bool" where
  "nan_le (Some a) (Some b) = (a \<le> b)"
| "nan_le _ _ = False"

fun nan_add :: "real option \<Rightarrow> real option \<Rightarrow> real option" where
  "nan_add (Some a) (Some b) = Some (a + b)"
| "nan_add _ _ = None"

fun nan_mul :: "real option \<Rightarrow> real option \<Rightarrow> real option" where
  "nan_mul (Some a) (Some b) = Some (a * b)"
| "nan_mul _ _ = None"

section \<open>Month keys\<close>

text \<open>
  \<open>str\<close> of an integer, \<open>'{0:0>2}'.format(x)\<close> (right-aligned in width 2, filled with
  \<open>0\<close>), and the month key \<open>Year.astype(str) + "-" + MonthVal2.astype(str)\<close>.
\<close>

definition digit_char :: "nat \<Rightarrow> char" where
  "digit_char n = ''0123456789'' ! (n mod 10)"

fun digits :: "nat \<Rightarrow> string" where
  "digits n = (if n < 10 then [digit_char n] else digits (n div 10) @ [digit_char n])"

declare digits.simps [simp del]

definition str_int :: "int \<Rightarrow> string" where
  "str_int i = (if i < 0 then CHR ''-'' # digits (nat (- i)) else digits (nat i))"

definition format_02 :: "nat \<Rightarrow> string" where
  "format_02 x = (let s = digits x in replicate (2 - length s) CHR ''0'' @ s)"

definition month_key :: "date \<Rightarrow> string" where
  "month_key d = str_int (year d) @ ''-'' @ format_02 (month d)"

section \<open>Grouping and column aggregates\<close>

text \<open>
  \<open>groupby(key)\<close> collects the rows of each distinct key and returns the groups in
  ascending key order (pandas sorts group keys by default). Strings order
  lexicographically by character code and dates by \<open>date_key\<close>; \<open>ord\<close> maps a key
  to the value it is ordered by.
\<close>

definition groupby :: "('k \<Rightarrow> 'o::linorder) \<Rightarrow> ('r \<Rightarrow> 'k) \<Rightarrow> 'r list \<Rightarrow> ('k \<times> 'r list) list" where
  "groupby ord key rows =
     map (\<lambda>k. (k, filter (\<lambda>r. key r = k) rows)) (sort_key ord (remdups (map key rows)))"

text \<open>
  Aggregates of a float column skip NaN: \<open>count\<close> counts the other entries, \<open>sum\<close>
  adds them, \<open>mean\<close> is NaN when there are none, and \<open>std\<close> (sample standard
  deviation, \<open>ddof = 1\<close>) is NaN when there are fewer than two.
\<close>

definition series_values :: "real option list \<Rightarrow> real list" where
  "series_values vs = map the (filter (\<lambda>v. v \<noteq> None) vs)"

definition series_count :: "real option list \<Rightarrow> int" where
  "series_count vs = int (length (series_values vs))"

definition series_sum :: "real option list \<Rightarrow> real" where
  "series_sum vs = sum_list (series_values vs)"

definition series_mean :: "real option list \<Rightarrow> real option" where
  "series_mean vs =
     (let xs = series_values vs
      in if xs = [] then None else Some (sum_list xs / real (length xs)))"

definition series_std :: "real option list \<Rightarrow> real option" where
  "series_std vs =
     (let xs = series_values vs; n = length xs
      in if n < 2 then None
         else let m = sum_list xs / real n
              in Some (sqrt (sum_list (map (\<lambda>x. (x - m)\<^sup>2) xs) / real (n - 1))))"

section \<open>Unit normalisation\<close>

text \<open>
  \<open>Series.diff()\<close>: NaN in the first position, then the difference to the previous
  entry of the column, whatever that row's measurement is.
\<close>

definition series_diff :: "real list \<Rightarrow> real option list" where
  "series_diff vs =
     map (\<lambda>i. if i = 0 then None else Some (vs ! i - vs ! (i - 1))) [0..<length vs]"

text \<open>
  \<open>convert_water_use_data\<close>: the Date column needs \<open>.dt\<close> on DateTime. Rows of
  measurement \<open>Water Meter\<close> get the differenced value, all other rows their Value.
\<close>

definition convert_water_use_data :: "raw_frame \<Rightarrow> error + vol_row list" where
  "convert_water_use_data dataframe =
     (if DateTime_dtype dataframe \<noteq> datetime64_dtype then Inl AttributeError
      else
        let rs = readings dataframe;
            diffs = series_diff (map Value rs)
        in Inr (map (\<lambda>i.
              \<lparr>Measurement = Measurement (rs ! i), DateTime = DateTime (rs ! i),
               Value = Value (rs ! i), Date = ts_date (DateTime (rs ! i)),
               Vol = (if Measurement (rs ! i) = ''Water Meter'' then diffs ! i
                      else Some (Value (rs ! i)))\<rparr>) [0..<length rs]))"

section \<open>Negative values\<close>

record neg_row =
  neg_Month :: string
  Negative_Value_Count :: int
  Negative_Value_Sum :: real

definition summarise_negative_values :: "vol_row list \<Rightarrow> neg_row list" where
  "summarise_negative_values dataframe =
     (let neg_data = filter (\<lambda>r. nan_lt (Vol r) (Some 0)) dataframe
      in map (\<lambda>(k, g). \<lparr>neg_Month = k,
                         Negative_Value_Count = series_count (map Vol g),
                         Negative_Value_Sum = series_sum (map Vol g)\<rparr>)
           (groupby (\<lambda>k. k) (\<lambda>r. month_key (ts_date (DateTime r))) neg_data))"

definition remove_negative_values :: "vol_row list \<Rightarrow> vol_row list" where
  "remove_negative_values dataframe = filter (\<lambda>r. nan_le (Some 0) (Vol r)) dataframe"

section \<open>Calendar\<close>

text \<open>
  The proleptic Gregorian calendar of \<open>datetime.date\<close>: leap years, the days of a
  month, the ordinal of a date (\<open>date.toordinal\<close>), and the next day
  (\<open>d + timedelta(days=1)\<close>).
\<close>

definition is_leap :: "int \<Rightarrow> bool" where
  "is_leap y = (y mod 4 = 0 \<and> (y mod 100 \<noteq> 0 \<or> y mod 400 = 0))"

definition days_in_month :: "int \<Rightarrow> nat \<Rightarrow> nat" where
  "days_in_month y m =
     (if m = 2 then (if is_leap y then 29 else 28)
      else if m = 4 \<or> m = 6 \<or> m = 9 \<or> m = 11 then 30 else 31)"

definition days_before_year :: "int \<Rightarrow> int" where
  "days_before_year y = (y - 1) * 365 + (y - 1) div 4 - (y - 1) div 100 + (y - 1) div 400"

definition days_before_month :: "int \<Rightarrow> nat \<Rightarrow> nat" where
  "days_before_month y m = sum_list (map (days_in_month y) [1..<m])"

definition toordinal :: "date \<Rightarrow> int" where
  "toordinal d =
     days_before_year (year d) + int (days_before_month (year d) (month d)) + int (day d)"

definition valid_date :: "date \<Rightarrow> bool" where
  "valid_date d =
     (1 \<le> month d \<and> month d \<le> 12 \<and> 1 \<le> day d \<and> day d \<le> days_in_month (year d) (month d))"

definition next_day :: "date \<Rightarrow> date" where
  "next_day d =
     (if day d < days_in_month (year d) (month d)
      then \<lparr>year = year d, month = month d, day = day d + 1\<rparr>
      else if month d < 12 then \<lparr>year = year d, month = month d + 1, day = 1\<rparr>
      else \<lparr>year = year d + 1, month = 1, day = 1\<rparr>)"

text \<open>\<open>pd.date_range(start, end)\<close>: every day from \<open>start\<close> to \<open>end\<close>, both included.\<close>

fun dates_from :: "date \<Rightarrow> nat \<Rightarrow> date list" where
  "dates_from d 0 = []"
| "dates_from d (Suc n) = d # dates_from (next_day d) n"

definition date_range :: "date \<Rightarrow> date \<Rightarrow> date list" where
  "date_range start_date to_date =
     dates_from start_date (nat (toordinal to_date - toordinal start_date + 1))"

section \<open>Extraction from the time-series service\<close>

text \<open>
  One row of the measurement list, and the loop of \<open>extract_water_use_data\<close>. The web
  service call is the parameter \<open>get_data\<close>; \<open>None\<close> stands for any exception inside
  the \<open>try\<close> block, which the bare \<open>except\<close> swallows. \<open>pd.concat\<close> appends the rows;
  an operand without rows does not contribute to the dtype of the result.
\<close>

record measurement_entry =
  ml_Measurement :: string
  FromDate :: date
  ToDate :: date

definition pd_concat :: "raw_frame \<Rightarrow> raw_frame \<Rightarrow> raw_frame" where
  "pd_concat a b =
     \<lparr>DateTime_dtype =
        (if readings a = [] \<and> readings b \<noteq> [] then DateTime_dtype b
         else if readings b = [] \<and> readings a \<noteq> [] then DateTime_dtype a
         else if DateTime_dtype a = DateTime_dtype b then DateTime_dtype a
         else object_dtype),
      readings = readings a @ readings b\<rparr>"

fun extract_loop ::
  "(string \<Rightarrow> date \<Rightarrow> date \<Rightarrow> raw_frame option) \<Rightarrow> date \<Rightarrow> raw_frame \<Rightarrow>
   measurement_entry list \<Rightarrow> raw_frame" where
  "extract_loop get_data from_d raw_data [] = raw_data"
| "extract_loop get_data from_d raw_data (row # rest) =
     (let measurement = ml_Measurement row; to_d = ToDate row
      in if date_key from_d \<le> date_key to_d
         then (case get_data measurement from_d to_d of
                 Some tsdata2 \<Rightarrow>
                   extract_loop get_data (next_day to_d) (pd_concat raw_data tsdata2) rest
               | None \<Rightarrow> extract_loop get_data (next_day to_d) raw_data rest)
         else extract_loop get_data from_d raw_data rest)"

definition extract_water_use_data ::
  "(string \<Rightarrow> date \<Rightarrow> date \<Rightarrow> raw_frame option) \<Rightarrow> measurement_entry list \<Rightarrow>
   error + raw_frame" where
  "extract_water_use_data get_data dataframe =
     (case dataframe of
        [] \<Rightarrow> Inl IndexError
      | row0 # _ \<Rightarrow>
          Inr (extract_loop get_data (FromDate row0)
                 \<lparr>DateTime_dtype = object_dtype, readings = []\<rparr> dataframe))"

section \<open>Spike detection\<close>

definition calculate_spike_parameters :: "vol_row list \<Rightarrow> real option \<times> real option" where
  "calculate_spike_parameters dataframe =
     (let nonzero_vol = filter (\<lambda>r. nan_lt (Some 0) (Vol r)) dataframe
      in (series_mean (map Vol nonzero_vol), series_std (map Vol nonzero_vol)))"

record spike_row = vol_row +
  sd5 :: int
  sd10 :: int
  sd20 :: int

definition add_spike_columns :: "vol_row \<Rightarrow> spike_row" where
  "add_spike_columns r =
     \<lparr>Measurement = Measurement r, DateTime = DateTime r, Value = Value r,
      Date = Date r, Vol = Vol r, sd5 = 0, sd10 = 0, sd20 = 0\<rparr>"

definition detect_spikes :: "vol_row list \<Rightarrow> real option \<Rightarrow> real option \<Rightarrow> spike_row list" where
  "detect_spikes dataframe mean sd =
     (let vol_stats = map add_spike_columns dataframe
      in if nan_le (Some 1) sd \<and> length vol_stats > 100
         then map (\<lambda>r. r\<lparr>sd5 := (if nan_lt (nan_add mean (nan_mul sd (Some 5))) (Vol r)
                                  then 1 else sd5 r),
                          sd10 := (if nan_lt (nan_add mean (nan_mul sd (Some 10))) (Vol r)
                                   then 1 else sd10 r),
                          sd20 := (if nan_lt (nan_add mean (nan_mul sd (Some 20))) (Vol r)
                                   then 1 else sd20 r)\<rparr>) vol_stats
         else vol_stats)"

section \<open>Daily and monthly statistics\<close>

record daily_row =
  d_Date :: date
  d_Measurement :: string
  d_Vol :: int
  d_sd5 :: int
  d_sd10 :: int
  d_sd20 :: int
  d_Year :: int
  d_MonthVal :: nat
  d_MonthVal2 :: string
  d_Month :: string

definition generate_daily_stats :: "spike_row list \<Rightarrow> daily_row list" where
  "generate_daily_stats dataframe =
     map (\<lambda>(k, g).
            \<lparr>d_Date = k,
             d_Measurement = Max (set (map Measurement g)),
             d_Vol = series_count (map Vol g),
             d_sd5 = sum_list (map sd5 g),
             d_sd10 = sum_list (map sd10 g),
             d_sd20 = sum_list (map sd20 g),
             d_Year = year k,
             d_MonthVal = month k,
             d_MonthVal2 = format_02 (month k),
             d_Month = str_int (year k) @ ''-'' @ format_02 (month k)\<rparr>)
       (groupby date_key Date dataframe)"

record monthly_row =
  m_Month :: string
  MeasType :: string
  DaysWithData :: int
  TotalReports :: int
  Spikes_5sd :: int
  Spikes_10sd :: int
  Spikes_20sd :: int

definition generate_monthly_stats :: "daily_row list \<Rightarrow> monthly_row list" where
  "generate_monthly_stats dataframe =
     map (\<lambda>(k, g).
            \<lparr>m_Month = k,
             MeasType = Max (set (map d_Measurement g)),
             DaysWithData = int (length g),
             TotalReports = sum_list (map d_Vol g),
             Spikes_5sd = sum_list (map d_sd5 g),
             Spikes_10sd = sum_list (map d_sd10 g),
             Spikes_20sd = sum_list (map d_sd20 g)\<rparr>)
       (groupby (\<lambda>k. k) d_Month dataframe)"

section \<open>Monthly extraction statistics\<close>

text \<open>
  \<open>Series.round(n)\<close> rounds to \<open>n\<close> decimals, halves to the even neighbour. It is
  modelled on the reals: the representation error of a binary float is left out.
\<close>

definition rint :: "real \<Rightarrow> int" where
  "rint x =
     (let f = \<lfloor>x\<rfloor>
      in if x - of_int f < 1 / 2 then f
         else if 1 / 2 < x - of_int f then f + 1
         else if even f then f else f + 1)"

definition np_round :: "nat \<Rightarrow> real \<Rightarrow> real" where
  "np_round decimals x = of_int (rint (x * 10 ^ decimals)) / 10 ^ decimals"

record extraction_row =
  e_Month :: string
  MinExtraction :: real
  MeanExtraction :: real
  MaxExtraction :: real

text \<open>
  The extraction table is either the grouped table, whose index is Month, or, when no
  record has a volume above 0, an empty table created with \<open>Month\<close> as an ordinary
  column.
\<close>

record extraction_table =
  Month_is_index :: bool
  e_rows :: "extraction_row list"

definition generate_extraction_stats :: "vol_row list \<Rightarrow> extraction_table" where
  "generate_extraction_stats dataframe =
     (let extraction_data = filter (\<lambda>r. nan_lt (Some 0) (Vol r)) dataframe
      in if length extraction_data \<ge> 1
         then \<lparr>Month_is_index = True,
               e_rows = map (\<lambda>(k, g).
                  let vs = series_values (map Vol g)
                  in \<lparr>e_Month = k,
                      MinExtraction = np_round 3 (Min (set vs)),
                      MeanExtraction = np_round 1 (sum_list vs / real (length vs)),
                      MaxExtraction = np_round 1 (Max (set vs))\<rparr>)
                (groupby (\<lambda>k. k) (\<lambda>r. month_key (ts_date (DateTime r))) extraction_data)\<rparr>
         else \<lparr>Month_is_index = False, e_rows = []\<rparr>)"

text \<open>
  \<open>pd.merge(dataframe1, dataframe2, on='Month', how='left')\<close>: every row of the left
  table, in its order, once for each row of the right table with the same Month, and
  once with NaN in the right table's columns when there is none. The monthly statistics
  table has Month as its index. When Month is the index of the right table too, it
  stays the index of the result; when it is a column of the right table, the result has
  Month as a column and a fresh \<open>RangeIndex\<close>. The selection of the nine columns that
  follows keeps the index and drops a Month column.
\<close>

datatype frame_index = Month_index "string list" | RangeIndex nat

record combined_row =
  c_MeasType :: string
  c_DaysWithData :: int
  c_TotalReports :: int
  c_MinExtraction :: "real option"
  c_MeanExtraction :: "real option"
  c_MaxExtraction :: "real option"
  c_Spikes_5sd :: int
  c_Spikes_10sd :: int
  c_Spikes_20sd :: int

record combined_table =
  c_index :: frame_index
  c_rows :: "combined_row list"

definition merge_row :: "monthly_row \<Rightarrow> extraction_row option \<Rightarrow> combined_row" where
  "merge_row l r =
     \<lparr>c_MeasType = MeasType l, c_DaysWithData = DaysWithData l,
      c_TotalReports = TotalReports l,
      c_MinExtraction = map_option MinExtraction r,
      c_MeanExtraction = map_option MeanExtraction r,
      c_MaxExtraction = map_option MaxExtraction r,
      c_Spikes_5sd = Spikes_5sd l, c_Spikes_10sd = Spikes_10sd l,
      c_Spikes_20sd = Spikes_20sd l\<rparr>"

definition combine_monthly_stats :: "monthly_row list \<Rightarrow> extraction_table \<Rightarrow> combined_table" where
  "combine_monthly_stats dataframe1 dataframe2 =
     (let merged = concat (map (\<lambda>l.
            (case filter (\<lambda>r. e_Month r = m_Month l) (e_rows dataframe2) of
               [] \<Rightarrow> [(m_Month l, merge_row l None)]
             | rs \<Rightarrow> map (\<lambda>r. (m_Month l, merge_row l (Some r))) rs)) dataframe1)
      in \<lparr>c_index = (if Month_is_index dataframe2 then Month_index (map fst merged)
                     else RangeIndex (length merged)),
          c_rows = map snd merged\<rparr>)"

section \<open>Gap-filled daily series for plotting\<close>

text \<open>
  \<open>Series.min()\<close> and \<open>Series.max()\<close> of the Date column; on an empty column they give
  NaN, and reading \<open>.year\<close> from it raises AttributeError.
\<close>

definition min_date :: "date list \<Rightarrow> date option" where
  "min_date ds =
     (case ds of [] \<Rightarrow> None
      | d # rest \<Rightarrow> Some (fold (\<lambda>x m. if date_key x < date_key m then x else m) rest d))"

definition max_date :: "date list \<Rightarrow> date option" where
  "max_date ds =
     (case ds of [] \<Rightarrow> None
      | d # rest \<Rightarrow> Some (fold (\<lambda>x m. if date_key m < date_key x then x else m) rest d))"

text \<open>The start of the water year that holds \<open>from_date\<close>.\<close>

definition water_year_start :: "date \<Rightarrow> date" where
  "water_year_start from_date =
     (let from_year = year from_date; from_month = month from_date
      in if from_month \<le> 6 then \<lparr>year = from_year - 1, month = 7, day = 1\<rparr>
         else \<lparr>year = from_year, month = 7, day = 1\<rparr>)"

text \<open>
  \<open>rolling(window, min_periods).mean()\<close>: the mean of the entries of the window ending at
  each position that are not NaN, and NaN when fewer than \<open>min_periods\<close> of them are.
\<close>

definition rolling_mean :: "nat \<Rightarrow> nat \<Rightarrow> real option list \<Rightarrow> real option list" where
  "rolling_mean window min_periods vs =
     map (\<lambda>i. let w = drop (Suc i - window) (take (Suc i) vs)
               in if int min_periods \<le> series_count w then series_mean w else None)
       [0..<length vs]"

record plot_row =
  p_Date :: date
  Readings :: int
  Volume :: "real option"
  p_Year :: int
  p_MonthVal :: nat
  p_MonthVal2 :: string
  p_Month :: string
  p_Day :: nat
  Rate :: "real option"
  MA30 :: "real option"

text \<open>
  The daily aggregate, keyed by date, and its reindexing onto a list of dates: a date
  without a row gets NaN in every column.
\<close>

definition daily_counts_of :: "vol_row list \<Rightarrow> (date \<times> int \<times> real) list" where
  "daily_counts_of dataframe =
     map (\<lambda>(k, g). (k, series_count (map Vol g), series_sum (map Vol g)))
       (groupby date_key Date dataframe)"

definition reindex :: "(date \<times> int \<times> real) list \<Rightarrow> date list \<Rightarrow> (date \<times> int option \<times> real option) list" where
  "reindex daily_counts idx =
     map (\<lambda>d. case map_of daily_counts d of
                 None \<Rightarrow> (d, None, None)
               | Some (c, v) \<Rightarrow> (d, Some c, Some v)) idx"

definition process_plot_data :: "vol_row list \<Rightarrow> error + plot_row list" where
  "process_plot_data dataframe =
     (let daily_counts = daily_counts_of dataframe
      in case (min_date (map Date dataframe), max_date (map Date dataframe)) of
           (Some from_date, Some to_date) \<Rightarrow>
             (let start_date = water_year_start from_date;
                  idx = date_range start_date to_date;
                  daily_counts2 = reindex daily_counts idx;
                  ma30 = rolling_mean 30 21 (map (\<lambda>(d, c, v). v) daily_counts2)
              in Inr (map (\<lambda>i. case daily_counts2 ! i of (d, c, v) \<Rightarrow>
                    \<lparr>p_Date = d,
                     Readings = (case c of None \<Rightarrow> 0 | Some n \<Rightarrow> n),
                     Volume = v,
                     p_Year = year d,
                     p_MonthVal = month d,
                     p_MonthVal2 = format_02 (month d),
                     p_Month = str_int (year d) @ ''-'' @ format_02 (month d),
                     p_Day = day d,
                     Rate = nan_mul v (Some (1000 / 86400)),
                     MA30 = ma30 ! i\<rparr>) [0..<length daily_counts2]))
         | _ \<Rightarrow> Inl AttributeError)"

section \<open>The warehouse query\<close>

text \<open>
  The \<open>CASE\<close> expression of \<open>TYPE_CORRECTED_COMBINED_METERS\<close> for one observation.
  \<open>prev\<close> is the previous observation of the same site, attribute and data source
  (\<open>LAG\<close>), absent for the first one; an absent operand makes the result \<open>NULL\<close>
  (\<open>None\<close>), and a division by zero fails the query. \<open>TIMEDIFF\<close> counts the boundaries
  of the unit crossed between the two timestamps.
\<close>

definition epoch_seconds :: "timestamp \<Rightarrow> int" where
  "epoch_seconds t = toordinal (ts_date t) * 86400 + int (ts_seconds t)"

definition timediff_seconds :: "timestamp \<Rightarrow> timestamp \<Rightarrow> int" where
  "timediff_seconds a b = epoch_seconds b - epoch_seconds a"

definition timediff_hours :: "timestamp \<Rightarrow> timestamp \<Rightarrow> int" where
  "timediff_hours a b = epoch_seconds b div 3600 - epoch_seconds a div 3600"

record observation =
  AttributeName :: string
  ObservationValue :: real
  ObservationDateTime :: timestamp

definition sql_divide :: "real \<Rightarrow> int \<Rightarrow> error + real option" where
  "sql_divide a b = (if b = 0 then Inl DivisionByZero else Inr (Some (a / of_int b)))"

definition MeasuredValue :: "observation \<Rightarrow> observation option \<Rightarrow> error + real option" where
  "MeasuredValue obs prev =
     (if AttributeName obs = ''Water Meter'' then
        (case prev of None \<Rightarrow> Inr None
         | Some p \<Rightarrow> Inr (Some (ObservationValue obs - ObservationValue p)))
      else if AttributeName obs = ''Flow'' then
        (case prev of None \<Rightarrow> Inr None
         | Some p \<Rightarrow>
             sql_divide (ObservationValue obs * 1000)
               (timediff_seconds (ObservationDateTime p) (ObservationDateTime obs)))
      else if AttributeName obs = ''Average Flow'' then
        (case prev of None \<Rightarrow> Inr None
         | Some p \<Rightarrow>
             sql_divide (ObservationValue obs)
               (timediff_hours (ObservationDateTime p) (ObservationDateTime obs)))
      else Inr (Some (ObservationValue obs)))"

section \<open>The initial processing of the main program\<close>

text \<open>
  The steps of \<open>main\<close> between the extraction and the exports: the negative values are
  summarised on the normalised table, then removed from it.
\<close>

definition initial_processing :: "raw_frame \<Rightarrow> error + neg_row list \<times> vol_row list" where
  "initial_processing wu_data =
     (case convert_water_use_data wu_data of
        Inl e \<Rightarrow> Inl e
      | Inr vol_data \<Rightarrow>
          (let neg_summary = summarise_negative_values vol_data;
               vol_data2 = remove_negative_values vol_data
           in Inr (neg_summary, vol_data2)))"

section \<open>Spike detection in the main program\<close>

text \<open>
  \<open>main\<close> computes the spike parameters on the filtered table and flags the spikes of
  the same table.
\<close>

definition spike_detection :: "vol_row list \<Rightarrow> spike_row list" where
  "spike_detection vol_data2 =
     (case calculate_spike_parameters vol_data2 of
        (mean, sd) \<Rightarrow> detect_spikes vol_data2 mean sd)"

section \<open>The monthly statistics of the main program\<close>

text \<open>
  The statistics block of \<open>main\<close> in the list variant of the script: the spikes are
  flagged on the filtered table, the flagged table is aggregated by day and then by
  month, the extraction statistics are computed from the filtered table itself, and
  the two monthly tables are merged.
\<close>

definition monthly_statistics :: "vol_row list \<Rightarrow> combined_table" where
  "monthly_statistics vol_data2 =
     (let vol_stats = spike_detection vol_data2;
          daily_stats = generate_daily_stats vol_stats;
          monthly_stats = generate_monthly_stats daily_stats;
          extraction_stats = generate_extraction_stats vol_data2
      in combine_monthly_stats monthly_stats extraction_stats)"

section \<open>Example data\<close>

definition at_day :: "nat \<Rightarrow> timestamp" where
  "at_day d = \<lparr>ts_date = \<lparr>year = 2020, month = 3, day = d\<rparr>, ts_seconds = 0\<rparr>"

text \<open>Four water-meter readings 10, 15, 12, 20 on consecutive days.\<close>

definition meter_frame :: raw_frame where
  "meter_frame = \<lparr>DateTime_dtype = datetime64_dtype, readings =
     [\<lparr>Measurement = ''Water Meter'', DateTime = at_day 1, Value = 10\<rparr>,
      \<lparr>Measurement = ''Water Meter'', DateTime = at_day 2, Value = 15\<rparr>,
      \<lparr>Measurement = ''Water Meter'', DateTime = at_day 3, Value = 12\<rparr>,
      \<lparr>Measurement = ''Water Meter'', DateTime = at_day 4, Value = 20\<rparr>]\<rparr>"

text \<open>A compliance volume followed by a volume derived from flow.\<close>

definition volume_frame :: raw_frame where
  "volume_frame = \<lparr>DateTime_dtype = datetime64_dtype, readings =
     [\<lparr>Measurement = ''Compliance Volume'', DateTime = at_day 1, Value = 7\<rparr>,
      \<lparr>Measurement = ''Volume [Flow]'', DateTime = at_day 2, Value = 4\<rparr>]\<rparr>"

text \<open>Two observations of the warehouse, ten seconds apart.\<close>

definition obs_at :: "string \<Rightarrow> nat \<Rightarrow> real \<Rightarrow> observation" where
  "obs_at a secs v =
     \<lparr>AttributeName = a, ObservationValue = v,
      ObservationDateTime = \<lparr>ts_date = \<lparr>year = 2020, month = 3, day = 1\<rparr>, ts_seconds = secs\<rparr>\<rparr>"

text \<open>
  A reading of measurement \<open>Volume\<close> on a day of March 2020, and the row that unit
  normalisation makes of it.
\<close>

definition volume_reading :: "nat \<Rightarrow> real \<Rightarrow> reading" where
  "volume_reading d x = \<lparr>Measurement = ''Volume'', DateTime = at_day d, Value = x\<rparr>"

definition volume_row :: "nat \<Rightarrow> real \<Rightarrow> vol_row" where
  "volume_row d x = \<lparr>Measurement = ''Volume'', DateTime = at_day d, Value = x,
     Date = ts_date (at_day d), Vol = Some x\<rparr>"

text \<open>150 rows: 148 volumes of 10, one of 31 and one of 51.\<close>

definition spike_frame :: "vol_row list" where
  "spike_frame = replicate 148 (volume_row 1 10) @ [volume_row 2 31, volume_row 3 51]"

text \<open>Volumes -2, -2, 5, -1 within one month.\<close>

definition neg_frame :: raw_frame where
  "neg_frame = \<lparr>DateTime_dtype = datetime64_dtype, readings =
     [volume_reading 1 (- 2), volume_reading 2 (- 2), volume_reading 3 5,
      volume_reading 4 (- 1)]\<rparr>"

definition neg_example :: "vol_row list" where
  "neg_example = [volume_row 1 (- 2), volume_row 2 (- 2), volume_row 3 5, volume_row 4 (- 1)]"

text \<open>101 rows: 51 volumes of 0, 49 of 1 and one of 1001.\<close>

definition sparse_frame :: "vol_row list" where
  "sparse_frame =
     replicate 51 (volume_row 1 0) @ replicate 49 (volume_row 2 1) @ [volume_row 3 1001]"

text \<open>120 rows: 100 volumes of 1, 19 of 0 and one of 102.\<close>

definition dense_frame :: "vol_row list" where
  "dense_frame =
     replicate 100 (volume_row 1 1) @ replicate 19 (volume_row 2 0) @ [volume_row 3 102]"

text \<open>
  A measurement list with one entry for March 2020, and a web service without data for
  it: every call raises.
\<close>

definition march_entry :: measurement_entry where
  "march_entry =
     \<lparr>ml_Measurement = ''Water Meter'', FromDate = \<lparr>year = 2020, month = 3, day = 1\<rparr>,
      ToDate = \<lparr>year = 2020, month = 3, day = 31\<rparr>\<rparr>"

definition no_data :: "string \<Rightarrow> date \<Rightarrow> date \<Rightarrow> raw_frame option" where
  "no_data measurement from_d to_d = None"

text \<open>A normalised row of measurement \<open>Volume\<close> on a given date.\<close>

definition volume_on :: "int \<Rightarrow> nat \<Rightarrow> nat \<Rightarrow> real \<Rightarrow> vol_row" where
  "volume_on y m d x =
     \<lparr>Measurement = ''Volume'',
      DateTime = \<lparr>ts_date = \<lparr>year = y, month = m, day = d\<rparr>, ts_seconds = 0\<rparr>,
      Value = x, Date = \<lparr>year = y, month = m, day = d\<rparr>, Vol = Some x\<rparr>"

text \<open>
  Two readings on 15 March 2020 and one on 17 March 2020; and a single reading on
  1 September 2020.
\<close>

definition march_table :: "vol_row list" where
  "march_table = [volume_on 2020 3 15 4, volume_on 2020 3 15 6, volume_on 2020 3 17 3]"

definition september_table :: "vol_row list" where
  "september_table = [volume_on 2020 9 1 5]"

text \<open>The readings of \<open>march_table\<close> and a reading of volume 0 on 2 April 2020.\<close>

definition april_table :: "vol_row list" where
  "april_table = march_table @ [volume_on 2020 4 2 0]"

text \<open>A single reading of volume 0 on 2 April 2020.\<close>

definition zero_table :: "vol_row list" where
  "zero_table = [volume_on 2020 4 2 0]"

section \<open>Reference notions for the properties\<close>

text \<open>The records of a month whose volume is negative, in the order of the table.\<close>

definition negative_records_in :: "string \<Rightarrow> vol_row list \<Rightarrow> vol_row list" where
  "negative_records_in k dataframe =
     filter (\<lambda>r. month_key (ts_date (DateTime r)) = k)
       (filter (\<lambda>r. nan_lt (Vol r) (Some 0)) dataframe)"

text \<open>The records of a date, in the order of the table.\<close>

definition records_on :: "date \<Rightarrow> vol_row list \<Rightarrow> vol_row list" where
  "records_on d dataframe = filter (\<lambda>r. Date r = d) dataframe"

text \<open>The volumes above 0 of a month, in the order of the table.\<close>

definition positive_volumes_in :: "string \<Rightarrow> vol_row list \<Rightarrow> real list" where
  "positive_volumes_in k dataframe =
     map (the \<circ> Vol)
       (filter (\<lambda>r. month_key (ts_date (DateTime r)) = k)
          (filter (\<lambda>r. nan_lt (Some 0) (Vol r)) dataframe))"

section \<open>Properties of unit normalisation\<close>

lemma convert_ok:
  "DateTime_dtype dataframe = datetime64_dtype \<Longrightarrow>
   \<exists>vol_data. convert_water_use_data dataframe = Inr vol_data"
  by (simp add: convert_water_use_data_def Let_def)

lemma convert_length:
  "convert_water_use_data dataframe = Inr vol_data \<Longrightarrow>
   length vol_data = length (readings dataframe)"
  by (auto simp: convert_water_use_data_def Let_def split: if_splits)

lemma convert_nth:
  assumes "convert_water_use_data dataframe = Inr vol_data"
    and "i < length (readings dataframe)"
  shows "Vol (vol_data ! i) =
     (if Measurement (readings dataframe ! i) = ''Water Meter''
      then (if i = 0 then None
            else Some (Value (readings dataframe ! i) - Value (readings dataframe ! (i - 1))))
      else Some (Value (readings dataframe ! i)))"
  using assms
  by (auto simp: convert_water_use_data_def Let_def series_diff_def split: if_splits)

lemma remove_negative_values_Vol:
  "r \<in> set (remove_negative_values dataframe) \<Longrightarrow> \<exists>v. Vol r = Some v \<and> 0 \<le> v"
  by (cases "Vol r") (auto simp: remove_negative_values_def)

lemma timediff_seconds_eq:
  "timediff_seconds a b =
     (toordinal (ts_date b) - toordinal (ts_date a)) * 86400
       + (int (ts_seconds b) - int (ts_seconds a))"
  by (simp add: timediff_seconds_def epoch_seconds_def algebra_simps)

lemma timediff_hours_eq:
  "timediff_hours a b =
     (toordinal (ts_date b) - toordinal (ts_date a)) * 24
       + (int (ts_seconds b) div 3600 - int (ts_seconds a) div 3600)"
proof -
  have "(k * 86400 + s) div 3600 = k * 24 + s div 3600" for k s :: int
  proof -
    have "k * 86400 + s = s + (k * 24) * 3600" by simp
    then show ?thesis by (simp only: div_mult_self1 [of 3600 s "k * 24"])
  qed
  then show ?thesis by (simp add: timediff_hours_def epoch_seconds_def algebra_simps)
qed

text \<open>
  Claim C9, as the code has it. In \<open>convert_water_use_data\<close> every reading whose
  measurement is not \<open>Water Meter\<close> gets its raw value as volume. The warehouse query
  keeps the raw value for every attribute other than \<open>Water Meter\<close>, \<open>Flow\<close> and
  \<open>Average Flow\<close>. It turns a \<open>Flow\<close> value into the value times 1000 divided by the
  seconds since the previous observation, an \<open>Average Flow\<close> value into the value
  divided by the hours since the previous observation, and a \<open>Water Meter\<close> value into
  its difference to the previous value. Without a previous observation these three
  give \<open>NULL\<close>, and a time difference of 0 fails the query. The seconds are those
  between the two timestamps; the hours are the hour boundaries between them.
\<close>

theorem non_meter_volume_is_value:
  "(DateTime_dtype dataframe = datetime64_dtype \<longrightarrow>
      (\<exists>vol_data. convert_water_use_data dataframe = Inr vol_data
         \<and> length vol_data = length (readings dataframe)
         \<and> (\<forall>i < length (readings dataframe).
               Measurement (readings dataframe ! i) \<noteq> ''Water Meter'' \<longrightarrow>
               Vol (vol_data ! i) = Some (Value (readings dataframe ! i)))))
   \<and> (AttributeName obs \<noteq> ''Water Meter'' \<longrightarrow> AttributeName obs \<noteq> ''Flow'' \<longrightarrow>
        AttributeName obs \<noteq> ''Average Flow'' \<longrightarrow>
        MeasuredValue obs prev = Inr (Some (ObservationValue obs)))
   \<and> (AttributeName obs = ''Flow'' \<longrightarrow>
        MeasuredValue obs None = Inr None
        \<and> (timediff_seconds (ObservationDateTime p) (ObservationDateTime obs) \<noteq> 0 \<longrightarrow>
             MeasuredValue obs (Some p) =
               Inr (Some (ObservationValue obs * 1000
                  / of_int (timediff_seconds (ObservationDateTime p) (ObservationDateTime obs)))))
        \<and> (timediff_seconds (ObservationDateTime p) (ObservationDateTime obs) = 0 \<longrightarrow>
             MeasuredValue obs (Some p) = Inl DivisionByZero))
   \<and> (AttributeName obs = ''Average Flow'' \<longrightarrow>
        MeasuredValue obs None = Inr None
        \<and> (timediff_hours (ObservationDateTime p) (ObservationDateTime obs) \<noteq> 0 \<longrightarrow>
             MeasuredValue obs (Some p) =
               Inr (Some (ObservationValue obs
                  / of_int (timediff_hours (ObservationDateTime p) (ObservationDateTime obs)))))
        \<and> (timediff_hours (ObservationDateTime p) (ObservationDateTime obs) = 0 \<longrightarrow>
             MeasuredValue obs (Some p) = Inl DivisionByZero))
   \<and> (AttributeName obs = ''Water Meter'' \<longrightarrow>
        MeasuredValue obs None = Inr None
        \<and> MeasuredValue obs (Some p) = Inr (Some (ObservationValue obs - ObservationValue p)))
   \<and> timediff_seconds a b =
        (toordinal (ts_date b) - toordinal (ts_date a)) * 86400
          + (int (ts_seconds b) - int (ts_seconds a))
   \<and> timediff_hours a b =
        (toordinal (ts_date b) - toordinal (ts_date a)) * 24
          + (int (ts_seconds b) div 3600 - int (ts_seconds a) div 3600)"
proof -
  have py: "DateTime_dtype dataframe = datetime64_dtype \<longrightarrow>
      (\<exists>vol_data. convert_water_use_data dataframe = Inr vol_data
         \<and> length vol_data = length (readings dataframe)
         \<and> (\<forall>i < length (readings dataframe).
               Measurement (readings dataframe ! i) \<noteq> ''Water Meter'' \<longrightarrow>
               Vol (vol_data ! i) = Some (Value (readings dataframe ! i))))"
  proof
    assume "DateTime_dtype dataframe = datetime64_dtype"
    then obtain vol_data where v: "convert_water_use_data dataframe = Inr vol_data"
      using convert_ok by blast
    then show "\<exists>vol_data. convert_water_use_data dataframe = Inr vol_data
         \<and> length vol_data = length (readings dataframe)
         \<and> (\<forall>i < length (readings dataframe).
               Measurement (readings dataframe ! i) \<noteq> ''Water Meter'' \<longrightarrow>
               Vol (vol_data ! i) = Some (Value (readings dataframe ! i)))"
      using convert_length [OF v] convert_nth [OF v] by auto
  qed
  have other: "AttributeName obs \<noteq> ''Water Meter'' \<longrightarrow> AttributeName obs \<noteq> ''Flow'' \<longrightarrow>
        AttributeName obs \<noteq> ''Average Flow'' \<longrightarrow>
        MeasuredValue obs prev = Inr (Some (ObservationValue obs))"
    by (simp add: MeasuredValue_def)
  have flow: "AttributeName obs = ''Flow'' \<longrightarrow>
        MeasuredValue obs None = Inr None
        \<and> (timediff_seconds (ObservationDateTime p) (ObservationDateTime obs) \<noteq> 0 \<longrightarrow>
             MeasuredValue obs (Some p) =
               Inr (Some (ObservationValue obs * 1000
                  / of_int (timediff_seconds (ObservationDateTime p) (ObservationDateTime obs)))))
        \<and> (timediff_seconds (ObservationDateTime p) (ObservationDateTime obs) = 0 \<longrightarrow>
             MeasuredValue obs (Some p) = Inl DivisionByZero)"
    by (simp add: MeasuredValue_def sql_divide_def)
  have avg: "AttributeName obs = ''Average Flow'' \<longrightarrow>
        MeasuredValue obs None = Inr None
        \<and> (timediff_hours (ObservationDateTime p) (ObservationDateTime obs) \<noteq> 0 \<longrightarrow>
             MeasuredValue obs (Some p) =
               Inr (Some (ObservationValue obs
                  / of_int (timediff_hours (ObservationDateTime p) (ObservationDateTime obs)))))
        \<and> (timediff_hours (ObservationDateTime p) (ObservationDateTime obs) = 0 \<longrightarrow>
             MeasuredValue obs (Some p) = Inl DivisionByZero)"
    by (simp add: MeasuredValue_def sql_divide_def)
  have meter: "AttributeName obs = ''Water Meter'' \<longrightarrow>
        MeasuredValue obs None = Inr None
        \<and> MeasuredValue obs (Some p) = Inr (Some (ObservationValue obs - ObservationValue p))"
    by (simp add: MeasuredValue_def)
  from py other flow avg meter timediff_seconds_eq [of a b] timediff_hours_eq [of a b]
  show ?thesis by blast
qed

theorem non_meter_volume_is_value_witness:
  "DateTime_dtype volume_frame = datetime64_dtype
   \<and> (\<exists>vol_data. convert_water_use_data volume_frame = Inr vol_data
         \<and> Vol (vol_data ! 0) = Some 7 \<and> Vol (vol_data ! 1) = Some 4)
   \<and> MeasuredValue (obs_at ''Compliance Volume'' 10 3) None = Inr (Some 3)
   \<and> MeasuredValue (obs_at ''Flow'' 10 2) None = Inr None
   \<and> MeasuredValue (obs_at ''Flow'' 10 2) (Some (obs_at ''Flow'' 0 1)) = Inr (Some 200)
   \<and> MeasuredValue (obs_at ''Flow'' 10 2) (Some (obs_at ''Flow'' 10 1)) = Inl DivisionByZero
   \<and> MeasuredValue (obs_at ''Average Flow'' 7260 6) (Some (obs_at ''Average Flow'' 3540 1))
       = Inr (Some 3)
   \<and> MeasuredValue (obs_at ''Average Flow'' 3590 6) (Some (obs_at ''Average Flow'' 10 1))
       = Inl DivisionByZero
   \<and> MeasuredValue (obs_at ''Water Meter'' 10 15) (Some (obs_at ''Water Meter'' 0 10))
       = Inr (Some 5)"
proof -
  note T = non_meter_volume_is_value
  have d: "DateTime_dtype volume_frame = datetime64_dtype" by (simp add: volume_frame_def)
  from T [of volume_frame "obs_at ''Flow'' 10 2" None "obs_at ''Flow'' 0 1" "at_day 1" "at_day 1"] d
  have py: "\<exists>vol_data. convert_water_use_data volume_frame = Inr vol_data
         \<and> Vol (vol_data ! 0) = Some 7 \<and> Vol (vol_data ! 1) = Some 4"
    by (auto simp: volume_frame_def)
  from T [of volume_frame "obs_at ''Compliance Volume'' 10 3" None "obs_at ''Flow'' 0 1"
      "at_day 1" "at_day 1"]
  have cv: "MeasuredValue (obs_at ''Compliance Volume'' 10 3) None = Inr (Some 3)"
    by (simp add: obs_at_def)
  have s1: "timediff_seconds (ObservationDateTime (obs_at ''Flow'' 0 1))
      (ObservationDateTime (obs_at ''Flow'' 10 2)) = 10"
    using T [of volume_frame "obs_at ''Flow'' 10 2" None "obs_at ''Flow'' 0 1" "ObservationDateTime (obs_at ''Flow'' 0 1)"
        "ObservationDateTime (obs_at ''Flow'' 10 2)"]
    by (simp add: obs_at_def)
  have s0: "timediff_seconds (ObservationDateTime (obs_at ''Flow'' 10 1))
      (ObservationDateTime (obs_at ''Flow'' 10 2)) = 0"
    using T [of volume_frame "obs_at ''Flow'' 10 2" None "obs_at ''Flow'' 0 1" "ObservationDateTime (obs_at ''Flow'' 10 1)"
        "ObservationDateTime (obs_at ''Flow'' 10 2)"]
    by (simp add: obs_at_def)
  have h2: "timediff_hours (ObservationDateTime (obs_at ''Average Flow'' 3540 1))
      (ObservationDateTime (obs_at ''Average Flow'' 7260 6)) = 2"
    using T [of volume_frame "obs_at ''Flow'' 10 2" None "obs_at ''Flow'' 0 1" "ObservationDateTime (obs_at ''Average Flow'' 3540 1)"
        "ObservationDateTime (obs_at ''Average Flow'' 7260 6)"]
    by (simp add: obs_at_def)
  have h0: "timediff_hours (ObservationDateTime (obs_at ''Average Flow'' 10 1))
      (ObservationDateTime (obs_at ''Average Flow'' 3590 6)) = 0"
    using T [of volume_frame "obs_at ''Flow'' 10 2" None "obs_at ''Flow'' 0 1" "ObservationDateTime (obs_at ''Average Flow'' 10 1)"
        "ObservationDateTime (obs_at ''Average Flow'' 3590 6)"]
    by (simp add: obs_at_def)
  have nm: "AttributeName (obs_at a s v) = a" "ObservationValue (obs_at a s v) = v" for a s v
    by (simp_all add: obs_at_def)
  from T [of volume_frame "obs_at ''Flow'' 10 2" None "obs_at ''Flow'' 0 1" "at_day 1" "at_day 1"] s1
  have f1: "MeasuredValue (obs_at ''Flow'' 10 2) None = Inr None"
    "MeasuredValue (obs_at ''Flow'' 10 2) (Some (obs_at ''Flow'' 0 1)) = Inr (Some 200)"
    by (simp_all add: nm)
  from T [of volume_frame "obs_at ''Flow'' 10 2" None "obs_at ''Flow'' 10 1" "at_day 1" "at_day 1"] s0
  have f0: "MeasuredValue (obs_at ''Flow'' 10 2) (Some (obs_at ''Flow'' 10 1)) = Inl DivisionByZero"
    by (simp add: nm)
  from T [of volume_frame "obs_at ''Average Flow'' 7260 6" None "obs_at ''Average Flow'' 3540 1" "at_day 1" "at_day 1"] h2
  have a2: "MeasuredValue (obs_at ''Average Flow'' 7260 6) (Some (obs_at ''Average Flow'' 3540 1))
       = Inr (Some 3)"
    by (simp add: nm)
  from T [of volume_frame "obs_at ''Average Flow'' 3590 6" None "obs_at ''Average Flow'' 10 1" "at_day 1" "at_day 1"] h0
  have a0: "MeasuredValue (obs_at ''Average Flow'' 3590 6) (Some (obs_at ''Average Flow'' 10 1))
       = Inl DivisionByZero"
    by (simp add: nm)
  from T [of volume_frame "obs_at ''Water Meter'' 10 15" None "obs_at ''Water Meter'' 0 10" "at_day 1" "at_day 1"]
  have wm: "MeasuredValue (obs_at ''Water Meter'' 10 15) (Some (obs_at ''Water Meter'' 0 10))
       = Inr (Some 5)"
    by (simp add: nm)
  from d py cv f1 f0 a2 a0 wm show ?thesis by simp
qed

text \<open>
  The claim as stated fails in the warehouse query: a \<open>Flow\<close> observation of 2, ten
  seconds after the previous one, is turned into 200.
\<close>

theorem flow_volume_counterexample:
  "AttributeName (obs_at ''Flow'' 10 2) \<noteq> ''Water Meter''
   \<and> ObservationValue (obs_at ''Flow'' 10 2) = 2
   \<and> MeasuredValue (obs_at ''Flow'' 10 2) (Some (obs_at ''Flow'' 0 1)) = Inr (Some 200)"
  by (simp add: obs_at_def MeasuredValue_def sql_divide_def timediff_seconds_def
      epoch_seconds_def)

text \<open>
  Claim C1, as the code has it. For a table of \<open>Water Meter\<close> readings only, the volume of
  every reading after the first is its value minus the previous value, and the volume of
  the first reading is missing (NaN, not 0). The row stays in the normalised table, but
  \<open>remove_negative_values\<close> keeps only rows with a volume of at least 0: it removes every
  row whose volume is missing together with the negative ones.
\<close>

theorem water_meter_volumes:
  assumes "DateTime_dtype dataframe = datetime64_dtype"
    and "\<forall>r \<in> set (readings dataframe). Measurement r = ''Water Meter''"
  shows "\<exists>vol_data. convert_water_use_data dataframe = Inr vol_data
     \<and> length vol_data = length (readings dataframe)
     \<and> (\<forall>i < length vol_data. Vol (vol_data ! i) =
          (if i = 0 then None
           else Some (Value (readings dataframe ! i) - Value (readings dataframe ! (i - 1)))))
     \<and> (\<forall>r \<in> set (remove_negative_values vol_data). \<exists>v. Vol r = Some v \<and> 0 \<le> v)
     \<and> (\<forall>r \<in> set vol_data. Vol r = None \<longrightarrow> r \<notin> set (remove_negative_values vol_data))"
proof -
  obtain vol_data where v: "convert_water_use_data dataframe = Inr vol_data"
    using convert_ok [OF assms(1)] by blast
  have len: "length vol_data = length (readings dataframe)" by (rule convert_length [OF v])
  have nth: "\<forall>i < length vol_data. Vol (vol_data ! i) =
          (if i = 0 then None
           else Some (Value (readings dataframe ! i) - Value (readings dataframe ! (i - 1))))"
    using convert_nth [OF v] assms(2) len by auto
  have keep: "\<forall>r \<in> set (remove_negative_values vol_data). \<exists>v. Vol r = Some v \<and> 0 \<le> v"
    using remove_negative_values_Vol by blast
  then have "\<forall>r \<in> set vol_data. Vol r = None \<longrightarrow> r \<notin> set (remove_negative_values vol_data)"
    by fastforce
  with v len nth keep show ?thesis by (intro exI [of _ vol_data]) simp
qed

theorem water_meter_volumes_witness:
  "DateTime_dtype meter_frame = datetime64_dtype
   \<and> map Measurement (readings meter_frame) = replicate 4 ''Water Meter''
   \<and> (\<exists>vol_data. convert_water_use_data meter_frame = Inr vol_data
        \<and> map Vol vol_data = [None, Some 5, Some (- 3), Some 8]
        \<and> map Vol (remove_negative_values vol_data) = [Some 5, Some 8])"
proof -
  have d: "DateTime_dtype meter_frame = datetime64_dtype" by (simp add: meter_frame_def)
  have m: "\<forall>r \<in> set (readings meter_frame). Measurement r = ''Water Meter''"
    by (simp add: meter_frame_def)
  from water_meter_volumes [OF d m] obtain vol_data
    where v: "convert_water_use_data meter_frame = Inr vol_data" by blast
  have "map Vol vol_data = [None, Some 5, Some (- 3), Some 8]"
    using v by (auto simp: convert_water_use_data_def series_diff_def meter_frame_def upt_rec)
  moreover have "map Vol (remove_negative_values vol_data) = [Some 5, Some 8]"
    using v by (auto simp: convert_water_use_data_def series_diff_def meter_frame_def
      remove_negative_values_def upt_rec)
  ultimately show ?thesis using d v by (simp add: meter_frame_def eval_nat_numeral)
qed

text \<open>
  The readings 10, 15, 12, 20 give the volumes NaN, 5, -3, 8. The first record does not
  reach the outputs computed from the filtered table: of the four records only those of
  15 and 20 are left.
\<close>

theorem meter_frame_counterexample:
  "map Vol (projr (convert_water_use_data meter_frame)) = [None, Some 5, Some (- 3), Some 8]
   \<and> map Vol (remove_negative_values (projr (convert_water_use_data meter_frame))) = [Some 5, Some 8]
   \<and> map Value (remove_negative_values (projr (convert_water_use_data meter_frame))) = [15, 20]"
  by (simp add: convert_water_use_data_def series_diff_def meter_frame_def
      remove_negative_values_def upt_rec)

section \<open>Properties of the negative-value handling\<close>

lemma month_key_at_day: "month_key (ts_date (at_day d)) = ''2020-03''"
  by (simp add: at_day_def month_key_def) code_simp

lemma series_values_all_Some:
  "\<forall>r \<in> set g. f r \<noteq> None \<Longrightarrow> series_values (map f g) = map (the \<circ> f) g"
  by (induction g) (auto simp: series_values_def)

lemma groupby_keys: "map fst (groupby ord key rows) = sort_key ord (remdups (map key rows))"
  by (simp add: groupby_def comp_def)

lemma groupby_group:
  "(k, g) \<in> set (groupby ord key rows) \<Longrightarrow>
   g = filter (\<lambda>r. key r = k) rows \<and> k \<in> key ` set rows"
  by (auto simp: groupby_def)

lemma summary_keys:
  "map neg_Month (summarise_negative_values dataframe) =
   sort (remdups (map (\<lambda>r. month_key (ts_date (DateTime r)))
     (filter (\<lambda>r. nan_lt (Vol r) (Some 0)) dataframe)))"
  by (simp add: summarise_negative_values_def Let_def groupby_def comp_def case_prod_unfold)

lemma nan_lt_Some: "nan_lt v (Some 0) \<Longrightarrow> v \<noteq> None"
  by (cases v) auto

lemma summary_row:
  assumes "row \<in> set (summarise_negative_values dataframe)"
  shows "Negative_Value_Count row = int (length (negative_records_in (neg_Month row) dataframe))
    \<and> Negative_Value_Sum row =
        sum_list (map (the \<circ> Vol) (negative_records_in (neg_Month row) dataframe))
    \<and> negative_records_in (neg_Month row) dataframe \<noteq> []"
proof -
  let ?negs = "filter (\<lambda>r. nan_lt (Vol r) (Some 0)) dataframe"
  let ?key = "\<lambda>r. month_key (ts_date (DateTime r))"
  from assms obtain k g where kg: "(k, g) \<in> set (groupby (\<lambda>k. k) ?key ?negs)"
    and row: "row = \<lparr>neg_Month = k, Negative_Value_Count = series_count (map Vol g),
                         Negative_Value_Sum = series_sum (map Vol g)\<rparr>"
    by (auto simp: summarise_negative_values_def Let_def)
  from groupby_group [OF kg]
  have g: "g = negative_records_in k dataframe" and k: "k \<in> ?key ` set ?negs"
    by (auto simp: negative_records_in_def)
  have "\<forall>r \<in> set g. Vol r \<noteq> None" unfolding g negative_records_in_def
    by (auto dest: nan_lt_Some)
  then have sv: "series_values (map Vol g) = map (the \<circ> Vol) g"
    by (rule series_values_all_Some)
  have ne: "g \<noteq> []" using k unfolding g negative_records_in_def
    by (auto simp: filter_empty_conv)
  show ?thesis using row g sv ne by (simp add: series_count_def series_sum_def)
qed

lemma summarise_after_remove:
  "summarise_negative_values (remove_negative_values dataframe) = []"
proof -
  have "filter (\<lambda>r. nan_lt (Vol r) (Some 0)) (remove_negative_values dataframe) = []"
    unfolding remove_negative_values_def filter_empty_conv
  proof (intro ballI)
    fix r assume "r \<in> set (filter (\<lambda>r. nan_le (Some 0) (Vol r)) dataframe)"
    then show "\<not> nan_lt (Vol r) (Some 0)" by (cases "Vol r") auto
  qed
  then show ?thesis by (simp add: summarise_negative_values_def groupby_def)
qed

lemma neg_frame_converted: "convert_water_use_data neg_frame = Inr neg_example"
  by (simp add: convert_water_use_data_def neg_frame_def neg_example_def volume_reading_def
      volume_row_def upt_rec)

lemma neg_example_summary:
  "summarise_negative_values neg_example =
   [\<lparr>neg_Month = ''2020-03'', Negative_Value_Count = 3, Negative_Value_Sum = - 5\<rparr>]"
  by code_simp

lemma neg_example_filtered: "remove_negative_values neg_example = [volume_row 3 5]"
  by code_simp

lemma neg_example_records:
  "negative_records_in ''2020-03'' neg_example =
   [volume_row 1 (- 2), volume_row 2 (- 2), volume_row 4 (- 1)]"
  by code_simp

lemma remove_negative_values_eq:
  "remove_negative_values dataframe = filter (\<lambda>r. \<exists>v. Vol r = Some v \<and> 0 \<le> v) dataframe"
  unfolding remove_negative_values_def
  by (rule filter_cong) (auto elim: nan_le.elims)

text \<open>
  Claim C3. The main program summarises the negative values on the normalised table and
  filters the same table afterwards. The summary has one row for each month with a
  negative volume, in ascending order of the month key, with the number and the sum of
  that month's negative volumes. The filtered table keeps, in order, exactly the
  records with a volume of at least 0, so no negative volume is left; summarising the
  filtered table would give an empty summary.
\<close>

theorem negative_value_handling:
  "(initial_processing wu_data = Inr (neg_summary, vol_data2) \<longrightarrow>
      (\<exists>vol_data. convert_water_use_data wu_data = Inr vol_data
         \<and> neg_summary = summarise_negative_values vol_data
         \<and> vol_data2 = remove_negative_values vol_data))
   \<and> sorted (map neg_Month (summarise_negative_values dataframe))
   \<and> distinct (map neg_Month (summarise_negative_values dataframe))
   \<and> set (map neg_Month (summarise_negative_values dataframe)) =
       {k. negative_records_in k dataframe \<noteq> []}
   \<and> (\<forall>row \<in> set (summarise_negative_values dataframe).
        Negative_Value_Count row = int (length (negative_records_in (neg_Month row) dataframe))
        \<and> Negative_Value_Sum row =
            sum_list (map (the \<circ> Vol) (negative_records_in (neg_Month row) dataframe)))
   \<and> remove_negative_values dataframe =
       filter (\<lambda>r. \<exists>v. Vol r = Some v \<and> 0 \<le> v) dataframe
   \<and> summarise_negative_values (remove_negative_values dataframe) = []"
proof (intro conjI)
  show "initial_processing wu_data = Inr (neg_summary, vol_data2) \<longrightarrow>
      (\<exists>vol_data. convert_water_use_data wu_data = Inr vol_data
         \<and> neg_summary = summarise_negative_values vol_data
         \<and> vol_data2 = remove_negative_values vol_data)"
    by (auto simp: initial_processing_def Let_def split: sum.splits)
  show "sorted (map neg_Month (summarise_negative_values dataframe))"
    by (simp add: summary_keys)
  show "distinct (map neg_Month (summarise_negative_values dataframe))"
    by (simp add: summary_keys)
  show "set (map neg_Month (summarise_negative_values dataframe)) =
       {k. negative_records_in k dataframe \<noteq> []}"
    unfolding summary_keys negative_records_in_def
    by (auto simp: filter_empty_conv)
  show "\<forall>row \<in> set (summarise_negative_values dataframe).
        Negative_Value_Count row = int (length (negative_records_in (neg_Month row) dataframe))
        \<and> Negative_Value_Sum row =
            sum_list (map (the \<circ> Vol) (negative_records_in (neg_Month row) dataframe))"
    using summary_row by blast
  show "remove_negative_values dataframe =
       filter (\<lambda>r. \<exists>v. Vol r = Some v \<and> 0 \<le> v) dataframe"
    by (rule remove_negative_values_eq)
  show "summarise_negative_values (remove_negative_values dataframe) = []"
    by (rule summarise_after_remove)
qed

theorem negative_value_handling_witness:
  "initial_processing neg_frame =
     Inr ([\<lparr>neg_Month = ''2020-03'', Negative_Value_Count = 3, Negative_Value_Sum = - 5\<rparr>],
          [volume_row 3 5])
   \<and> map Vol neg_example = [Some (- 2), Some (- 2), Some 5, Some (- 1)]
   \<and> summarise_negative_values neg_example =
       [\<lparr>neg_Month = ''2020-03'', Negative_Value_Count = 3, Negative_Value_Sum = - 5\<rparr>]
   \<and> map Vol (remove_negative_values neg_example) = [Some 5]
   \<and> summarise_negative_values (remove_negative_values neg_example) = []"
proof -
  have ip: "initial_processing neg_frame =
     Inr ([\<lparr>neg_Month = ''2020-03'', Negative_Value_Count = 3, Negative_Value_Sum = - 5\<rparr>],
          [volume_row 3 5])"
    by (simp add: initial_processing_def neg_frame_converted neg_example_summary
        neg_example_filtered)
  note T = negative_value_handling [of neg_frame
      "[\<lparr>neg_Month = ''2020-03'', Negative_Value_Count = 3, Negative_Value_Sum = - 5\<rparr>]"
      "[volume_row 3 5]" neg_example]
  from T ip have "\<exists>vol_data. convert_water_use_data neg_frame = Inr vol_data
      \<and> [\<lparr>neg_Month = ''2020-03'', Negative_Value_Count = 3, Negative_Value_Sum = - 5\<rparr>]
           = summarise_negative_values vol_data
      \<and> [volume_row 3 5] = remove_negative_values vol_data"
    by blast
  then have s: "summarise_negative_values neg_example =
       [\<lparr>neg_Month = ''2020-03'', Negative_Value_Count = 3, Negative_Value_Sum = - 5\<rparr>]"
    and f: "remove_negative_values neg_example = [volume_row 3 5]"
    by (auto simp: neg_frame_converted)
  from T have e: "summarise_negative_values (remove_negative_values neg_example) = []"
    by blast
  show ?thesis using ip s f e by (simp add: neg_example_def volume_row_def)
qed

section \<open>Properties of spike detection\<close>

text \<open>
  Claim C4. The three flags of a record are nested: a record flagged at 20 standard
  deviations is flagged at 10 and at 5, and one flagged at 10 is flagged at 5. Each flag
  is 0 or 1.
\<close>

theorem spike_flags_nested:
  assumes "r \<in> set (detect_spikes dataframe mean sd)"
  shows "(sd20 r = 1 \<longrightarrow> sd10 r = 1 \<and> sd5 r = 1) \<and> (sd10 r = 1 \<longrightarrow> sd5 r = 1)
     \<and> sd5 r \<in> {0, 1} \<and> sd10 r \<in> {0, 1} \<and> sd20 r \<in> {0, 1}"
proof (cases "nan_le (Some 1) sd \<and> length dataframe > 100")
  case False
  then show ?thesis using assms
    by (auto simp: detect_spikes_def Let_def add_spike_columns_def)
next
  case True
  then obtain s where s: "sd = Some s" "1 \<le> s" by (cases sd) auto
  from True assms obtain q where q: "q \<in> set dataframe"
    and r: "r = (add_spike_columns q)
       \<lparr>sd5 := (if nan_lt (nan_add mean (nan_mul sd (Some 5))) (Vol (add_spike_columns q))
                then 1 else sd5 (add_spike_columns q)),
        sd10 := (if nan_lt (nan_add mean (nan_mul sd (Some 10))) (Vol (add_spike_columns q))
                 then 1 else sd10 (add_spike_columns q)),
        sd20 := (if nan_lt (nan_add mean (nan_mul sd (Some 20))) (Vol (add_spike_columns q))
                 then 1 else sd20 (add_spike_columns q))\<rparr>"
    by (auto simp: detect_spikes_def Let_def)
  show ?thesis
  proof (cases mean)
    case None
    then show ?thesis using r by (simp add: add_spike_columns_def)
  next
    case (Some m)
    show ?thesis
    proof (cases "Vol q")
      case None
      then show ?thesis using r by (simp add: add_spike_columns_def)
    next
      case (Some v)
      have "m + s * 5 \<le> m + s * 10" "m + s * 10 \<le> m + s * 20" using s by auto
      then show ?thesis using r s \<open>mean = Some m\<close> Some
        by (auto simp: add_spike_columns_def)
    qed
  qed
qed

theorem spike_flags_nested_witness:
  "(add_spike_columns (volume_row 3 51))\<lparr>sd5 := 1, sd10 := 1, sd20 := 1\<rparr>
     \<in> set (detect_spikes spike_frame (Some 10) (Some 2))
   \<and> (add_spike_columns (volume_row 2 31))\<lparr>sd5 := 1, sd10 := 1, sd20 := 0\<rparr>
     \<in> set (detect_spikes spike_frame (Some 10) (Some 2))
   \<and> sd20 ((add_spike_columns (volume_row 3 51))\<lparr>sd5 := 1, sd10 := 1, sd20 := 1\<rparr>) = 1
   \<and> sd10 ((add_spike_columns (volume_row 3 51))\<lparr>sd5 := 1, sd10 := 1, sd20 := 1\<rparr>) = 1
   \<and> sd5 ((add_spike_columns (volume_row 3 51))\<lparr>sd5 := 1, sd10 := 1, sd20 := 1\<rparr>) = 1"
  using spike_flags_nested [of "(add_spike_columns (volume_row 3 51))\<lparr>sd5 := 1, sd10 := 1, sd20 := 1\<rparr>"
      spike_frame "Some 10" "Some 2"]
  by (simp add: detect_spikes_def spike_frame_def Let_def add_spike_columns_def volume_row_def)

lemma nan_lt_pos_iff: "nan_lt (Some 0) v \<longleftrightarrow> (\<exists>x. v = Some x \<and> 0 < x)"
  by (cases v) auto

lemma series_values_positive:
  "series_values (map Vol (filter (\<lambda>r. nan_lt (Some 0) (Vol r)) dataframe)) =
   map (the \<circ> Vol) (filter (\<lambda>r. nan_lt (Some 0) (Vol r)) dataframe)"
  by (rule series_values_all_Some) (auto simp: nan_lt_pos_iff)

lemma positive_values_pos:
  "x \<in> set (series_values (map Vol (filter (\<lambda>r. nan_lt (Some 0) (Vol r)) dataframe))) \<Longrightarrow> 0 < x"
  unfolding series_values_positive by (auto simp: nan_lt_pos_iff)

lemma sum_list_pos_real: "xs \<noteq> [] \<Longrightarrow> \<forall>x \<in> set xs. (0::real) < x \<Longrightarrow> 0 < sum_list xs"
  by (induction xs) (auto intro: add_pos_nonneg sum_list_nonneg less_imp_le)

lemma spike_mean_positive:
  assumes "calculate_spike_parameters dataframe = (mean, Some s)"
  shows "\<exists>m. mean = Some m \<and> 0 < m"
proof -
  let ?xs = "series_values (map Vol (filter (\<lambda>r. nan_lt (Some 0) (Vol r)) dataframe))"
  from assms have len: "2 \<le> length ?xs"
    by (auto simp: calculate_spike_parameters_def series_std_def Let_def split: if_splits)
  then have "0 < length ?xs" by linarith
  then have ne: "?xs \<noteq> []" by simp
  have pos: "\<forall>x \<in> set ?xs. 0 < x" using positive_values_pos by blast
  have "0 < sum_list ?xs" by (rule sum_list_pos_real [OF ne pos])
  moreover have "0 < real (length ?xs)" using ne by simp
  ultimately have "0 < sum_list ?xs / real (length ?xs)" by simp
  moreover from assms ne have "mean = Some (sum_list ?xs / real (length ?xs))"
    by (auto simp: calculate_spike_parameters_def series_mean_def Let_def)
  ultimately show ?thesis by blast
qed

lemma calculate_spike_parameters_filter:
  "calculate_spike_parameters (filter (\<lambda>r. nan_lt (Some 0) (Vol r)) dataframe) =
   calculate_spike_parameters dataframe"
  by (simp add: calculate_spike_parameters_def)

lemma detect_spikes_guard_fails:
  assumes "\<not> (nan_le (Some 1) sd \<and> length dataframe > 100)"
    and "r \<in> set (detect_spikes dataframe mean sd)"
  shows "sd5 r = 0 \<and> sd10 r = 0 \<and> sd20 r = 0"
  using assms by (auto simp: detect_spikes_def Let_def add_spike_columns_def)

lemma detect_spikes_truncate:
  "map vol_row.truncate (detect_spikes dataframe mean sd) = dataframe"
  by (auto simp: detect_spikes_def Let_def add_spike_columns_def vol_row.truncate_def
      comp_def intro: nth_equalityI)

lemma sparse_params:
  "calculate_spike_parameters sparse_frame = (Some 21, Some (sqrt 20000))"
  by (simp add: calculate_spike_parameters_def sparse_frame_def volume_row_def
      series_mean_def series_std_def series_values_def Let_def sum_list_replicate)

lemma dense_params:
  "calculate_spike_parameters dense_frame = (Some 2, Some (sqrt 101))"
  by (simp add: calculate_spike_parameters_def dense_frame_def volume_row_def
      series_mean_def series_std_def series_values_def Let_def sum_list_replicate)

lemma sqrt_20000_bounds: "141 < sqrt 20000" "sqrt 20000 < 142"
  by (auto intro!: real_less_rsqrt real_less_lsqrt)

lemma sqrt_101_bounds: "10 < sqrt 101" "sqrt 101 < 11"
  by (auto intro!: real_less_rsqrt real_less_lsqrt)

lemma sparse_positive_count:
  "length (filter (\<lambda>r. nan_lt (Some 0) (Vol r)) sparse_frame) = 50"
  by (simp add: sparse_frame_def volume_row_def)

lemma sparse_detection:
  "spike_detection sparse_frame =
     replicate 51 (add_spike_columns (volume_row 1 0))
     @ replicate 49 (add_spike_columns (volume_row 2 1))
     @ [(add_spike_columns (volume_row 3 1001))\<lparr>sd5 := 1\<rparr>]"
  unfolding spike_detection_def sparse_params prod.case
  using sqrt_20000_bounds
  by (simp add: detect_spikes_def Let_def sparse_frame_def add_spike_columns_def volume_row_def)

lemma dense_detection:
  "spike_detection dense_frame =
     replicate 100 (add_spike_columns (volume_row 1 1))
     @ replicate 19 (add_spike_columns (volume_row 2 0))
     @ [(add_spike_columns (volume_row 3 102))\<lparr>sd5 := 1\<rparr>]"
  unfolding spike_detection_def dense_params prod.case
  using sqrt_101_bounds
  by (simp add: detect_spikes_def Let_def dense_frame_def add_spike_columns_def volume_row_def)

text \<open>
  Claim C2, as the code has it. The mean and the standard deviation are those of the
  records with a volume above 0: the other records do not change them. No flag is set
  unless that standard deviation is at least 1 and the table given to
  \<open>detect_spikes\<close>, records of volume 0 included, has more than 100 rows; when this
  guard fails every flag of every record is 0. The result always holds the rows of the
  table, in order: nothing is raised.
\<close>

theorem spike_guard:
  "calculate_spike_parameters (filter (\<lambda>r. nan_lt (Some 0) (Vol r)) dataframe) =
     calculate_spike_parameters dataframe
   \<and> map vol_row.truncate (spike_detection dataframe) = dataframe
   \<and> (\<forall>r \<in> set (spike_detection dataframe).
        sd5 r \<noteq> 0 \<or> sd10 r \<noteq> 0 \<or> sd20 r \<noteq> 0 \<longrightarrow>
        nan_le (Some 1) (snd (calculate_spike_parameters dataframe)) \<and> length dataframe > 100)
   \<and> (\<not> (nan_le (Some 1) (snd (calculate_spike_parameters dataframe)) \<and> length dataframe > 100)
        \<longrightarrow> (\<forall>r \<in> set (spike_detection dataframe). sd5 r = 0 \<and> sd10 r = 0 \<and> sd20 r = 0))"
proof (intro conjI)
  show "calculate_spike_parameters (filter (\<lambda>r. nan_lt (Some 0) (Vol r)) dataframe) =
     calculate_spike_parameters dataframe"
    by (rule calculate_spike_parameters_filter)
  show "map vol_row.truncate (spike_detection dataframe) = dataframe"
    by (simp add: spike_detection_def detect_spikes_truncate split: prod.splits)
  show g: "\<not> (nan_le (Some 1) (snd (calculate_spike_parameters dataframe)) \<and> length dataframe > 100)
        \<longrightarrow> (\<forall>r \<in> set (spike_detection dataframe). sd5 r = 0 \<and> sd10 r = 0 \<and> sd20 r = 0)"
  proof (intro impI ballI)
    fix r
    assume n: "\<not> (nan_le (Some 1) (snd (calculate_spike_parameters dataframe)) \<and> length dataframe > 100)"
      and r: "r \<in> set (spike_detection dataframe)"
    obtain mean sd where p: "calculate_spike_parameters dataframe = (mean, sd)"
      by (cases "calculate_spike_parameters dataframe")
    from r p have "r \<in> set (detect_spikes dataframe mean sd)"
      by (simp add: spike_detection_def)
    moreover from n p have "\<not> (nan_le (Some 1) sd \<and> length dataframe > 100)" by simp
    ultimately show "sd5 r = 0 \<and> sd10 r = 0 \<and> sd20 r = 0"
      using detect_spikes_guard_fails by blast
  qed
  then show "\<forall>r \<in> set (spike_detection dataframe).
        sd5 r \<noteq> 0 \<or> sd10 r \<noteq> 0 \<or> sd20 r \<noteq> 0 \<longrightarrow>
        nan_le (Some 1) (snd (calculate_spike_parameters dataframe)) \<and> length dataframe > 100"
    by blast
qed

theorem spike_guard_witness:
  "(add_spike_columns (volume_row 3 102))\<lparr>sd5 := 1\<rparr> \<in> set (spike_detection dense_frame)
   \<and> sd5 ((add_spike_columns (volume_row 3 102))\<lparr>sd5 := 1\<rparr>) = 1
   \<and> nan_le (Some 1) (snd (calculate_spike_parameters dense_frame))
   \<and> length dense_frame > 100
   \<and> \<not> length neg_example > 100
   \<and> map sd5 (spike_detection neg_example) = [0, 0, 0, 0]
   \<and> map sd10 (spike_detection neg_example) = [0, 0, 0, 0]
   \<and> map sd20 (spike_detection neg_example) = [0, 0, 0, 0]"
proof -
  have m: "(add_spike_columns (volume_row 3 102))\<lparr>sd5 := 1\<rparr> \<in> set (spike_detection dense_frame)"
    by (simp add: dense_detection)
  have f: "sd5 ((add_spike_columns (volume_row 3 102))\<lparr>sd5 := 1\<rparr>) = 1" by simp
  from spike_guard [of dense_frame] m f
  have g: "nan_le (Some 1) (snd (calculate_spike_parameters dense_frame)) \<and> length dense_frame > 100"
    by fastforce
  have n: "\<not> length neg_example > 100" by (simp add: neg_example_def)
  have len: "length (spike_detection neg_example) = 4"
    using spike_guard [of neg_example] arg_cong [of _ _ length]
    by (fastforce simp: neg_example_def)
  from spike_guard [of neg_example] n
  have z: "\<forall>r \<in> set (spike_detection neg_example). sd5 r = 0 \<and> sd10 r = 0 \<and> sd20 r = 0"
    by blast
  have "map sd5 (spike_detection neg_example) = replicate 4 0"
    "map sd10 (spike_detection neg_example) = replicate 4 0"
    "map sd20 (spike_detection neg_example) = replicate 4 0"
    using z len by (auto simp: list_eq_iff_nth_eq)
  then show ?thesis using m f g n by (simp add: eval_nat_numeral)
qed

text \<open>
  The claim as stated fails on a table of 101 rows of which 50 have a volume above 0: the
  set of positive volumes has no more than 100 members, and the row of volume 1001 is
  flagged all the same.
\<close>

theorem spike_guard_counterexample:
  "length (filter (\<lambda>r. nan_lt (Some 0) (Vol r)) sparse_frame) = 50
   \<and> length sparse_frame = 101
   \<and> (add_spike_columns (volume_row 3 1001))\<lparr>sd5 := 1\<rparr> \<in> set (spike_detection sparse_frame)
   \<and> sd5 ((add_spike_columns (volume_row 3 1001))\<lparr>sd5 := 1\<rparr>) = 1"
  by (simp add: sparse_positive_count sparse_detection) (simp add: sparse_frame_def)

text \<open>
  Claim C10. In the table flagged by the main program, a record whose volume is missing,
  0 or negative has none of the three flags set.
\<close>

theorem spike_flags_positive_only:
  assumes "r \<in> set (spike_detection dataframe)"
    and "Vol r = None \<or> (\<exists>v. Vol r = Some v \<and> v \<le> 0)"
  shows "sd5 r = 0 \<and> sd10 r = 0 \<and> sd20 r = 0"
proof (cases "nan_le (Some 1) (snd (calculate_spike_parameters dataframe)) \<and> length dataframe > 100")
  case False
  obtain mean sd where p: "calculate_spike_parameters dataframe = (mean, sd)"
    by (cases "calculate_spike_parameters dataframe")
  from assms(1) p have "r \<in> set (detect_spikes dataframe mean sd)"
    by (simp add: spike_detection_def)
  moreover from False p have "\<not> (nan_le (Some 1) sd \<and> length dataframe > 100)" by simp
  ultimately show ?thesis using detect_spikes_guard_fails by blast
next
  case True
  obtain mean sd where p: "calculate_spike_parameters dataframe = (mean, sd)"
    by (cases "calculate_spike_parameters dataframe")
  with True obtain s where s: "sd = Some s" "1 \<le> s" by (cases sd) auto
  from spike_mean_positive p s obtain m where m: "mean = Some m" "0 < m" by blast
  from assms(1) p True obtain q where q: "q \<in> set dataframe"
    and r: "r = (add_spike_columns q)
       \<lparr>sd5 := (if nan_lt (nan_add mean (nan_mul sd (Some 5))) (Vol (add_spike_columns q))
                then 1 else sd5 (add_spike_columns q)),
        sd10 := (if nan_lt (nan_add mean (nan_mul sd (Some 10))) (Vol (add_spike_columns q))
                 then 1 else sd10 (add_spike_columns q)),
        sd20 := (if nan_lt (nan_add mean (nan_mul sd (Some 20))) (Vol (add_spike_columns q))
                 then 1 else sd20 (add_spike_columns q))\<rparr>"
    by (auto simp: spike_detection_def detect_spikes_def Let_def)
  have vq: "Vol r = Vol q" using r by (simp add: add_spike_columns_def)
  show ?thesis
  proof (cases "Vol q")
    case None
    then show ?thesis using r by (simp add: add_spike_columns_def)
  next
    case (Some v)
    with assms(2) vq have "v \<le> 0" by auto
    moreover have "0 < m + s * 5" "0 < m + s * 10" "0 < m + s * 20"
      using m s by (auto intro: add_pos_nonneg)
    ultimately show ?thesis using r m s Some by (simp add: add_spike_columns_def)
  qed
qed

theorem spike_flags_positive_only_witness:
  "add_spike_columns (volume_row 2 0) \<in> set (spike_detection dense_frame)
   \<and> Vol (add_spike_columns (volume_row 2 0)) = Some 0
   \<and> sd5 (add_spike_columns (volume_row 2 0)) = 0
   \<and> sd10 (add_spike_columns (volume_row 2 0)) = 0
   \<and> sd20 (add_spike_columns (volume_row 2 0)) = 0
   \<and> (add_spike_columns (volume_row 3 102))\<lparr>sd5 := 1\<rparr> \<in> set (spike_detection dense_frame)"
proof -
  have m: "add_spike_columns (volume_row 2 0) \<in> set (spike_detection dense_frame)"
    by (simp add: dense_detection)
  have v: "Vol (add_spike_columns (volume_row 2 0)) = Some 0"
    by (simp add: add_spike_columns_def volume_row_def)
  then have "Vol (add_spike_columns (volume_row 2 0)) = None
      \<or> (\<exists>v. Vol (add_spike_columns (volume_row 2 0)) = Some v \<and> v \<le> 0)"
    by simp
  from spike_flags_positive_only [OF m this] m v show ?thesis
    by (simp add: dense_detection)
qed

section \<open>The empty extraction\<close>

text \<open>
  On a table without rows whose DateTime column holds datetime64 values, every stage
  gives a table without rows; only the plot preparation raises, since the minimum of an
  empty Date column is NaN.
\<close>

lemma stages_on_empty_table:
  "convert_water_use_data \<lparr>DateTime_dtype = datetime64_dtype, readings = []\<rparr> = Inr []"
  "summarise_negative_values [] = []"
  "remove_negative_values [] = []"
  "calculate_spike_parameters [] = (None, None)"
  "detect_spikes [] None None = []"
  "generate_daily_stats [] = []"
  "generate_monthly_stats [] = []"
  "generate_extraction_stats [] = \<lparr>Month_is_index = False, e_rows = []\<rparr>"
  "combine_monthly_stats [] \<lparr>Month_is_index = False, e_rows = []\<rparr> =
     \<lparr>c_index = RangeIndex 0, c_rows = []\<rparr>"
  "process_plot_data [] = Inl AttributeError"
  by (simp_all add: convert_water_use_data_def summarise_negative_values_def groupby_def
      remove_negative_values_def calculate_spike_parameters_def series_mean_def
      series_std_def series_values_def detect_spikes_def generate_daily_stats_def
      generate_monthly_stats_def generate_extraction_stats_def combine_monthly_stats_def
      process_plot_data_def min_date_def max_date_def Let_def)

text \<open>
  Claim C8. When the web service has no data for any entry of the measurement list,
  \<open>extract_water_use_data\<close> returns the table it created with
  \<open>pd.DataFrame(columns=[...])\<close>, whose columns have dtype object, and
  \<open>convert_water_use_data\<close> raises AttributeError on it instead of returning a table
  without rows.
\<close>

theorem empty_extraction_raises:
  "extract_water_use_data no_data [march_entry] =
     Inr \<lparr>DateTime_dtype = object_dtype, readings = []\<rparr>
   \<and> convert_water_use_data \<lparr>DateTime_dtype = object_dtype, readings = []\<rparr> =
       Inl AttributeError
   \<and> initial_processing \<lparr>DateTime_dtype = object_dtype, readings = []\<rparr> =
       Inl AttributeError"
  by (simp add: extract_water_use_data_def march_entry_def no_data_def date_key_def
      convert_water_use_data_def initial_processing_def)

section \<open>Properties of the calendar\<close>

lemma upt_1_13: "[1..<13] = [1,2,3,4,5,6,7,8,9,10,11,12::nat]"
  by code_simp

lemma days_before_month_13:
  "days_before_month y 13 = (if is_leap y then 366 else 365)"
  unfolding days_before_month_def upt_1_13 by (simp add: days_in_month_def)

lemma div_pred:
  fixes y k :: int
  assumes "0 < k"
  shows "(y - 1) div k = (if y mod k = 0 then y div k - 1 else y div k)"
proof (cases "y mod k = 0")
  case True
  have "y - 1 = k * (y div k - 1) + (k - 1)"
    using True by (simp add: algebra_simps mod_eq_0_iff_dvd)
  then have "(y - 1) div k = y div k - 1"
    using assms by (intro int_div_pos_eq [where r = "k - 1"]) auto
  with True show ?thesis by simp
next
  case False
  have "0 \<le> y mod k" "y mod k < k" using assms by auto
  with False have r: "0 \<le> y mod k - 1" "y mod k - 1 < k" by auto
  have "y - 1 = k * (y div k) + (y mod k - 1)" by simp
  then have "(y - 1) div k = y div k"
    using r by (intro int_div_pos_eq [where r = "y mod k - 1"]) auto
  with False show ?thesis by simp
qed

lemma days_before_year_Suc:
  "days_before_year (y + 1) = days_before_year y + (if is_leap y then 366 else 365)"
proof -
  have m: "y mod 400 = 0 \<Longrightarrow> y mod 100 = 0" "y mod 100 = 0 \<Longrightarrow> y mod 4 = 0"
    by presburger+
  show ?thesis
    unfolding days_before_year_def is_leap_def
    using m by (auto simp: div_pred [of 4 y] div_pred [of 100 y] div_pred [of 400 y])
qed

lemma days_before_year_mono: "y \<le> y' \<Longrightarrow> days_before_year y \<le> days_before_year y'"
proof (induction "nat (y' - y)" arbitrary: y')
  case 0
  then show ?case by simp
next
  case (Suc n)
  then have "n = nat ((y' - 1) - y)" "y \<le> y' - 1" by auto
  then have "days_before_year y \<le> days_before_year (y' - 1)" using Suc.hyps(1) by blast
  also have "\<dots> \<le> days_before_year y'"
    using days_before_year_Suc [of "y' - 1"] by (simp split: if_splits)
  finally show ?case .
qed

lemma days_in_month_bounds: "28 \<le> days_in_month y m" "days_in_month y m \<le> 31"
  by (auto simp: days_in_month_def)

lemma days_before_month_Suc:
  "1 \<le> m \<Longrightarrow> days_before_month y (Suc m) = days_before_month y m + days_in_month y m"
  by (simp add: days_before_month_def)

lemma days_before_month_mono: "m \<le> m' \<Longrightarrow> days_before_month y m \<le> days_before_month y m'"
proof (induction m')
  case 0
  then show ?case by simp
next
  case (Suc m')
  show ?case
  proof (cases "m = Suc m'")
    case True then show ?thesis by simp
  next
    case False
    with Suc have le: "days_before_month y m \<le> days_before_month y m'" by simp
    show ?thesis
    proof (cases "1 \<le> m'")
      case True
      then show ?thesis using le days_before_month_Suc [OF True, of y] by simp
    next
      case False
      then have "m' = 0" by simp
      then show ?thesis using le by (simp add: days_before_month_def)
    qed
  qed
qed

lemma day_of_year_le:
  assumes "valid_date d"
  shows "days_before_month (year d) (month d) + day d \<le> (if is_leap (year d) then 366 else 365)"
proof -
  from assms have m: "1 \<le> month d" "Suc (month d) \<le> 13"
    and dd: "day d \<le> days_in_month (year d) (month d)"
    by (auto simp: valid_date_def)
  have "days_before_month (year d) (month d) + day d \<le> days_before_month (year d) (Suc (month d))"
    using dd days_before_month_Suc [OF m(1), of "year d"] by simp
  also have "\<dots> \<le> days_before_month (year d) 13" by (rule days_before_month_mono [OF m(2)])
  finally show ?thesis by (simp add: days_before_month_13)
qed

lemma toordinal_next_day:
  assumes "valid_date d"
  shows "toordinal (next_day d) = toordinal d + 1"
proof (cases "day d < days_in_month (year d) (month d)")
  case True
  then show ?thesis by (simp add: next_day_def toordinal_def)
next
  case False
  with assms have dd: "day d = days_in_month (year d) (month d)" and m: "1 \<le> month d" "month d \<le> 12"
    by (auto simp: valid_date_def)
  show ?thesis
  proof (cases "month d < 12")
    case True
    then show ?thesis using False dd days_before_month_Suc [OF m(1), of "year d"]
      by (simp add: next_day_def toordinal_def)
  next
    case False
    with m have m12: "month d = 12" by simp
    have "days_before_month (year d) 13 = days_before_month (year d) 12 + days_in_month (year d) 12"
      using days_before_month_Suc [of 12 "year d"] by simp
    then have "int (days_before_month (year d) 12) + int (day d) = (if is_leap (year d) then 366 else 365)"
      using dd m12 by (simp add: days_before_month_13 split: if_splits)
    moreover have "days_before_month (year d + 1) 1 = 0" by (simp add: days_before_month_def)
    ultimately show ?thesis using m12 dd days_before_year_Suc [of "year d"]
      by (simp add: next_day_def toordinal_def split: if_splits)
  qed
qed

lemma valid_next_day: "valid_date d \<Longrightarrow> valid_date (next_day d)"
  using days_in_month_bounds(1) [of "year d" "month d"]
    days_in_month_bounds(1) [of "year d" "Suc (month d)"]
    days_in_month_bounds(1) [of "year d + 1" 1]
  by (auto simp: valid_date_def next_day_def)

lemma toordinal_strict_mono:
  assumes "valid_date a" "valid_date b" "date_key a < date_key b"
  shows "toordinal a < toordinal b"
proof -
  from assms(3) consider "year a < year b"
    | "year a = year b" "month a < month b"
    | "year a = year b" "month a = month b" "day a < day b"
    unfolding date_key_def less_prod_def by (simp add: order_le_less) blast
  then show ?thesis
  proof cases
    case 1
    have "toordinal a \<le> days_before_year (year a) + (if is_leap (year a) then 366 else 365)"
      using day_of_year_le [OF assms(1)] by (simp add: toordinal_def split: if_splits)
    also have "\<dots> = days_before_year (year a + 1)" by (simp add: days_before_year_Suc)
    also have "\<dots> \<le> days_before_year (year b)" using 1 by (intro days_before_year_mono) simp
    also have "\<dots> < toordinal b" using assms(2) by (simp add: toordinal_def valid_date_def)
    finally show ?thesis .
  next
    case 2
    from assms(1) have m: "1 \<le> month a" and dd: "day a \<le> days_in_month (year a) (month a)"
      by (auto simp: valid_date_def)
    have "days_before_month (year a) (month a) + day a \<le> days_before_month (year a) (Suc (month a))"
      using dd days_before_month_Suc [OF m, of "year a"] by simp
    also have "\<dots> \<le> days_before_month (year a) (month b)"
      using 2 by (intro days_before_month_mono) simp
    finally show ?thesis using 2 assms(2) by (simp add: toordinal_def valid_date_def)
  next
    case 3
    then show ?thesis by (simp add: toordinal_def)
  qed
qed

lemma toordinal_mono:
  assumes "valid_date a" "valid_date b" "date_key a \<le> date_key b"
  shows "toordinal a \<le> toordinal b"
proof (cases "date_key a = date_key b")
  case True
  then have "a = b" by (simp add: date_key_def date.equality)
  then show ?thesis by simp
next
  case False
  with assms(3) have "date_key a < date_key b" by simp
  then show ?thesis using toordinal_strict_mono [OF assms(1,2)] by simp
qed

lemma toordinal_le_iff:
  assumes "valid_date a" "valid_date b"
  shows "toordinal a \<le> toordinal b \<longleftrightarrow> date_key a \<le> date_key b"
  using toordinal_mono [OF assms] toordinal_strict_mono [OF assms(2,1)]
  by (metis linorder_not_le)

lemma toordinal_inj:
  assumes "valid_date a" "valid_date b" "toordinal a = toordinal b"
  shows "a = b"
proof -
  have "date_key a = date_key b"
    using toordinal_strict_mono [OF assms(1,2)] toordinal_strict_mono [OF assms(2,1)] assms(3)
    by (metis less_irrefl linorder_neqE)
  then show ?thesis by (simp add: date_key_def date.equality)
qed

lemma set_dates_from:
  "valid_date s \<Longrightarrow>
   set (dates_from s n) =
     {d. valid_date d \<and> toordinal s \<le> toordinal d \<and> toordinal d < toordinal s + int n}"
proof (induction n arbitrary: s)
  case 0
  then show ?case by auto
next
  case (Suc n)
  have v: "valid_date (next_day s)" by (rule valid_next_day [OF Suc.prems])
  have "set (dates_from s (Suc n)) = insert s (set (dates_from (next_day s) n))" by simp
  also have "\<dots> = insert s {d. valid_date d \<and> toordinal s + 1 \<le> toordinal d
      \<and> toordinal d < toordinal s + 1 + int n}"
    by (simp add: Suc.IH [OF v] toordinal_next_day [OF Suc.prems])
  also have "\<dots> = {d. valid_date d \<and> toordinal s \<le> toordinal d
      \<and> toordinal d < toordinal s + int (Suc n)}"
  proof -
    have ne: "toordinal d \<noteq> toordinal s" if "valid_date d" "d \<noteq> s" for d
      using toordinal_inj [OF Suc.prems that(1)] that(2) by auto
    show ?thesis using Suc.prems ne by (auto simp: order_le_less) force+
  qed
  finally show ?case .
qed

lemma toordinal_dates_from:
  "valid_date s \<Longrightarrow> map toordinal (dates_from s n) = map (\<lambda>k. toordinal s + int k) [0..<n]"
proof (induction n arbitrary: s)
  case 0
  then show ?case by simp
next
  case (Suc n)
  have v: "valid_date (next_day s)" by (rule valid_next_day [OF Suc.prems])
  have "map (\<lambda>k. toordinal s + int k) [0..<Suc n] =
      toordinal s # map (\<lambda>k. toordinal s + int (Suc k)) [0..<n]"
    by (simp add: upt_rec [of 0 "Suc n"] map_Suc_upt [symmetric] del: upt_Suc)
  then show ?case
    using Suc.IH [OF v] by (simp add: toordinal_next_day [OF Suc.prems] del: upt_Suc)
qed

lemma distinct_dates_from: "valid_date s \<Longrightarrow> distinct (dates_from s n)"
proof -
  assume "valid_date s"
  then have "distinct (map toordinal (dates_from s n))"
    by (simp add: toordinal_dates_from distinct_map inj_on_def)
  then show ?thesis by (simp add: distinct_map)
qed

lemma length_dates_from: "length (dates_from s n) = n"
  by (induction n arbitrary: s) auto

lemma set_date_range:
  assumes "valid_date s" "valid_date e"
  shows "set (date_range s e) =
     {d. valid_date d \<and> date_key s \<le> date_key d \<and> date_key d \<le> date_key e}"
proof -
  have "set (date_range s e) =
     {d. valid_date d \<and> toordinal s \<le> toordinal d \<and> toordinal d \<le> toordinal e}"
    unfolding date_range_def set_dates_from [OF assms(1)] by auto
  also have "\<dots> = {d. valid_date d \<and> date_key s \<le> date_key d \<and> date_key d \<le> date_key e}"
    using toordinal_le_iff assms by blast
  finally show ?thesis .
qed

section \<open>Properties of the gap-filled daily series\<close>

lemma fold_min_date:
  "fold (\<lambda>x m. if date_key x < date_key m then x else m) rest d \<in> set (d # rest)
   \<and> (\<forall>x \<in> set (d # rest).
         date_key (fold (\<lambda>x m. if date_key x < date_key m then x else m) rest d) \<le> date_key x)"
proof (induction rest arbitrary: d)
  case Nil
  then show ?case by simp
next
  case (Cons a rest)
  let ?d' = "if date_key a < date_key d then a else d"
  from Cons [of ?d'] show ?case by (auto split: if_splits intro: order_trans)
qed

lemma fold_max_date:
  "fold (\<lambda>x m. if date_key m < date_key x then x else m) rest d \<in> set (d # rest)
   \<and> (\<forall>x \<in> set (d # rest).
         date_key x \<le> date_key (fold (\<lambda>x m. if date_key m < date_key x then x else m) rest d))"
proof (induction rest arbitrary: d)
  case Nil
  then show ?case by simp
next
  case (Cons a rest)
  let ?d' = "if date_key d < date_key a then a else d"
  from Cons [of ?d'] show ?case by (auto split: if_splits intro: order_trans)
qed

lemma min_date_props:
  assumes "ds \<noteq> []"
  shows "\<exists>m. min_date ds = Some m \<and> m \<in> set ds \<and> (\<forall>d \<in> set ds. date_key m \<le> date_key d)"
proof -
  from assms obtain d rest where ds: "ds = d # rest" by (cases ds) auto
  show ?thesis unfolding ds min_date_def using fold_min_date [of rest d] by simp
qed

lemma max_date_props:
  assumes "ds \<noteq> []"
  shows "\<exists>m. max_date ds = Some m \<and> m \<in> set ds \<and> (\<forall>d \<in> set ds. date_key d \<le> date_key m)"
proof -
  from assms obtain d rest where ds: "ds = d # rest" by (cases ds) auto
  show ?thesis unfolding ds max_date_def using fold_max_date [of rest d] by simp
qed

lemma water_year_start_valid: "valid_date (water_year_start d)"
  by (simp add: water_year_start_def valid_date_def days_in_month_def Let_def)

lemma water_year_start_le:
  "valid_date d \<Longrightarrow> date_key (water_year_start d) \<le> date_key d"
  by (auto simp: water_year_start_def valid_date_def date_key_def Let_def less_eq_prod_def)

lemma map_of_daily_counts:
  "map_of (daily_counts_of dataframe) d =
     (if d \<in> Date ` set dataframe
      then Some (series_count (map Vol (records_on d dataframe)),
                 series_sum (map Vol (records_on d dataframe)))
      else None)"
proof -
  let ?ks = "sort_key date_key (remdups (map Date dataframe))"
  let ?f = "\<lambda>k. (series_count (map Vol (records_on k dataframe)),
                   series_sum (map Vol (records_on k dataframe)))"
  have "daily_counts_of dataframe = map (\<lambda>k. (k, ?f k)) ?ks"
    by (simp add: daily_counts_of_def groupby_def records_on_def)
  then have "map_of (daily_counts_of dataframe) d = (if d \<in> set ?ks then Some (?f d) else None)"
    by (simp add: map_of_map_restrict restrict_map_def)
  then show ?thesis by simp
qed

lemma process_plot_data_rows:
  assumes "min_date (map Date dataframe) = Some from_date"
    and "max_date (map Date dataframe) = Some to_date"
  shows "\<exists>plot_data. process_plot_data dataframe = Inr plot_data
     \<and> map p_Date plot_data = date_range (water_year_start from_date) to_date
     \<and> (\<forall>row \<in> set plot_data.
          Readings row = (case map_of (daily_counts_of dataframe) (p_Date row) of
                            None \<Rightarrow> 0 | Some (c, v) \<Rightarrow> c)
          \<and> Volume row = map_option snd (map_of (daily_counts_of dataframe) (p_Date row))
          \<and> Rate row = nan_mul (Volume row) (Some (1000 / 86400)))"
proof -
  let ?idx = "date_range (water_year_start from_date) to_date"
  let ?dc2 = "reindex (daily_counts_of dataframe) ?idx"
  let ?ma = "rolling_mean 30 21 (map (\<lambda>(d, c, v). v) ?dc2)"
  let ?row = "\<lambda>i. case ?dc2 ! i of (d, c, v) \<Rightarrow>
                    \<lparr>p_Date = d,
                     Readings = (case c of None \<Rightarrow> 0 | Some n \<Rightarrow> n),
                     Volume = v,
                     p_Year = year d,
                     p_MonthVal = month d,
                     p_MonthVal2 = format_02 (month d),
                     p_Month = str_int (year d) @ ''-'' @ format_02 (month d),
                     p_Day = day d,
                     Rate = nan_mul v (Some (1000 / 86400)),
                     MA30 = ?ma ! i\<rparr>"
  have p: "process_plot_data dataframe = Inr (map ?row [0..<length ?dc2])"
    using assms by (simp add: process_plot_data_def Let_def)
  have len: "length ?dc2 = length ?idx" by (simp add: reindex_def)
  have nth: "?dc2 ! i = (case map_of (daily_counts_of dataframe) (?idx ! i) of
                 None \<Rightarrow> (?idx ! i, None, None)
               | Some (c, v) \<Rightarrow> (?idx ! i, Some c, Some v))" if "i < length ?idx" for i
    using that by (simp add: reindex_def)
  have d: "map p_Date (map ?row [0..<length ?dc2]) = ?idx"
    by (rule nth_equalityI) (auto simp: len nth split: option.splits)
  have r: "\<forall>row \<in> set (map ?row [0..<length ?dc2]).
          Readings row = (case map_of (daily_counts_of dataframe) (p_Date row) of
                            None \<Rightarrow> 0 | Some (c, v) \<Rightarrow> c)
          \<and> Volume row = map_option snd (map_of (daily_counts_of dataframe) (p_Date row))
          \<and> Rate row = nan_mul (Volume row) (Some (1000 / 86400))"
    by (auto simp: len nth split: option.splits)
  show ?thesis using p d r by blast
qed

lemma date_range_Cons:
  assumes "valid_date s" "valid_date e" "date_key s \<le> date_key e"
  shows "\<exists>rest. date_range s e = s # rest"
proof -
  have "toordinal s \<le> toordinal e" by (rule toordinal_mono [OF assms])
  then obtain n where "nat (toordinal e - toordinal s + 1) = Suc n"
    by (cases "nat (toordinal e - toordinal s + 1)") auto
  then show ?thesis by (simp add: date_range_def)
qed

lemma plot_data_frame:
  assumes "dataframe \<noteq> []" and "\<forall>r \<in> set dataframe. valid_date (Date r)"
  shows "\<exists>plot_data from_date to_date.
       process_plot_data dataframe = Inr plot_data
     \<and> min_date (map Date dataframe) = Some from_date
     \<and> max_date (map Date dataframe) = Some to_date
     \<and> from_date \<in> Date ` set dataframe \<and> to_date \<in> Date ` set dataframe
     \<and> (\<forall>r \<in> set dataframe. date_key from_date \<le> date_key (Date r)
            \<and> date_key (Date r) \<le> date_key to_date)
     \<and> valid_date from_date \<and> valid_date to_date
     \<and> date_key (water_year_start from_date) \<le> date_key to_date
     \<and> map p_Date plot_data = date_range (water_year_start from_date) to_date
     \<and> (\<forall>row \<in> set plot_data.
          Readings row = (case map_of (daily_counts_of dataframe) (p_Date row) of
                            None \<Rightarrow> 0 | Some (c, v) \<Rightarrow> c)
          \<and> Volume row = map_option snd (map_of (daily_counts_of dataframe) (p_Date row))
          \<and> Rate row = nan_mul (Volume row) (Some (1000 / 86400)))"
proof -
  from assms(1) have ne: "map Date dataframe \<noteq> []" by simp
  from min_date_props [OF ne] obtain f where f: "min_date (map Date dataframe) = Some f"
    "f \<in> Date ` set dataframe" "\<forall>d \<in> set (map Date dataframe). date_key f \<le> date_key d"
    by auto
  from max_date_props [OF ne] obtain t where t: "max_date (map Date dataframe) = Some t"
    "t \<in> Date ` set dataframe" "\<forall>d \<in> set (map Date dataframe). date_key d \<le> date_key t"
    by auto
  have vf: "valid_date f" and vt: "valid_date t" using f(2) t(2) assms(2) by auto
  have "date_key f \<le> date_key t" using f(3) t(2) by auto
  with water_year_start_le [OF vf] have le: "date_key (water_year_start f) \<le> date_key t"
    by (rule order_trans)
  from process_plot_data_rows [OF f(1) t(1)] obtain plot_data where
    p: "process_plot_data dataframe = Inr plot_data"
      "map p_Date plot_data = date_range (water_year_start f) t"
      "\<forall>row \<in> set plot_data.
          Readings row = (case map_of (daily_counts_of dataframe) (p_Date row) of
                            None \<Rightarrow> 0 | Some (c, v) \<Rightarrow> c)
          \<and> Volume row = map_option snd (map_of (daily_counts_of dataframe) (p_Date row))
          \<and> Rate row = nan_mul (Volume row) (Some (1000 / 86400))"
    by blast
  show ?thesis
    using p f t vf vt le by (intro exI [of _ plot_data] exI [of _ f] exI [of _ t]) simp
qed

lemma march_table_min: "min_date (map Date march_table) = Some \<lparr>year = 2020, month = 3, day = 15\<rparr>"
  by (simp add: march_table_def volume_on_def min_date_def date_key_def)

lemma september_table_min:
  "min_date (map Date september_table) = Some \<lparr>year = 2020, month = 9, day = 1\<rparr>"
  by (simp add: september_table_def volume_on_def min_date_def)

lemma march_table_valid: "\<forall>r \<in> set march_table. valid_date (Date r)"
  by (simp add: march_table_def volume_on_def valid_date_def days_in_month_def)

lemma september_table_valid: "\<forall>r \<in> set september_table. valid_date (Date r)"
  by (simp add: september_table_def volume_on_def valid_date_def days_in_month_def)

lemma march_table_max: "max_date (map Date march_table) = Some \<lparr>year = 2020, month = 3, day = 17\<rparr>"
  by (simp add: march_table_def volume_on_def max_date_def date_key_def)

text \<open>
  Claim C5. For a table with at least one record, \<open>process_plot_data\<close> returns a series
  that starts on the first day of the water year holding the earliest date of the table:
  1 July of the previous calendar year when the month of that date is at most June, and
  1 July of the same calendar year otherwise. No row of the series is earlier.
\<close>

theorem water_year_start_of_series:
  assumes "dataframe \<noteq> []" and "\<forall>r \<in> set dataframe. valid_date (Date r)"
  shows "\<exists>plot_data from_date. process_plot_data dataframe = Inr plot_data
     \<and> min_date (map Date dataframe) = Some from_date
     \<and> from_date \<in> Date ` set dataframe
     \<and> (\<forall>r \<in> set dataframe. date_key from_date \<le> date_key (Date r))
     \<and> plot_data \<noteq> []
     \<and> p_Date (hd plot_data) =
         (if month from_date \<le> 6 then \<lparr>year = year from_date - 1, month = 7, day = 1\<rparr>
          else \<lparr>year = year from_date, month = 7, day = 1\<rparr>)
     \<and> (\<forall>row \<in> set plot_data. date_key (p_Date (hd plot_data)) \<le> date_key (p_Date row))"
proof -
  from plot_data_frame [OF assms] obtain plot_data f t where
    p: "process_plot_data dataframe = Inr plot_data"
    and f: "min_date (map Date dataframe) = Some f" "f \<in> Date ` set dataframe"
      "\<forall>r \<in> set dataframe. date_key f \<le> date_key (Date r)"
    and v: "valid_date f" "valid_date t"
    and le: "date_key (water_year_start f) \<le> date_key t"
    and d: "map p_Date plot_data = date_range (water_year_start f) t"
    by blast
  from date_range_Cons [OF water_year_start_valid v(2) le] obtain rest
    where r: "date_range (water_year_start f) t = water_year_start f # rest" by blast
  from d r have ne: "plot_data \<noteq> []" by auto
  from d r ne have hd: "p_Date (hd plot_data) = water_year_start f"
    by (cases plot_data) auto
  have "\<forall>row \<in> set plot_data. date_key (water_year_start f) \<le> date_key (p_Date row)"
  proof
    fix row assume "row \<in> set plot_data"
    then have "p_Date row \<in> set (map p_Date plot_data)" by simp
    then show "date_key (water_year_start f) \<le> date_key (p_Date row)"
      unfolding d set_date_range [OF water_year_start_valid v(2)] by simp
  qed
  with p f ne hd show ?thesis
    by (intro exI [of _ plot_data] exI [of _ f]) (simp add: water_year_start_def Let_def)
qed

theorem water_year_start_of_series_witness:
  "march_table \<noteq> []
   \<and> valid_date \<lparr>year = 2020, month = 3, day = 15\<rparr>
   \<and> valid_date \<lparr>year = 2020, month = 3, day = 17\<rparr>
   \<and> (\<exists>plot_data. process_plot_data march_table = Inr plot_data
         \<and> p_Date (hd plot_data) = \<lparr>year = 2019, month = 7, day = 1\<rparr>)
   \<and> september_table \<noteq> []
   \<and> valid_date \<lparr>year = 2020, month = 9, day = 1\<rparr>
   \<and> (\<exists>plot_data. process_plot_data september_table = Inr plot_data
         \<and> p_Date (hd plot_data) = \<lparr>year = 2020, month = 7, day = 1\<rparr>)"
proof -
  have m: "march_table \<noteq> []" and s: "september_table \<noteq> []"
    by (simp_all add: march_table_def september_table_def)
  have v: "valid_date \<lparr>year = 2020, month = 3, day = 15\<rparr>"
    "valid_date \<lparr>year = 2020, month = 3, day = 17\<rparr>"
    "valid_date \<lparr>year = 2020, month = 9, day = 1\<rparr>"
    by (simp_all add: valid_date_def days_in_month_def)
  from water_year_start_of_series [OF m march_table_valid]
  have a: "\<exists>plot_data. process_plot_data march_table = Inr plot_data
         \<and> p_Date (hd plot_data) = \<lparr>year = 2019, month = 7, day = 1\<rparr>"
    by (auto simp: march_table_min)
  from water_year_start_of_series [OF s september_table_valid]
  have b: "\<exists>plot_data. process_plot_data september_table = Inr plot_data
         \<and> p_Date (hd plot_data) = \<lparr>year = 2020, month = 7, day = 1\<rparr>"
    by (auto simp: september_table_min)
  from m s v a b show ?thesis by simp
qed

text \<open>
  Claim C6. The series has one row for every calendar date from the start of the water
  year to the latest date of the table, in order, and every date of the table is among
  them. The row of a date of the table has the number of that date's volumes as reading
  count, their sum as volume and the sum times 1000/86400 as rate; the row of any other
  date has the reading count 0, and its volume and rate are missing.
\<close>

theorem gap_filled_series:
  assumes "dataframe \<noteq> []" and "\<forall>r \<in> set dataframe. valid_date (Date r)"
  shows "\<exists>plot_data from_date to_date.
       process_plot_data dataframe = Inr plot_data
     \<and> min_date (map Date dataframe) = Some from_date
     \<and> max_date (map Date dataframe) = Some to_date
     \<and> map p_Date plot_data = date_range (water_year_start from_date) to_date
     \<and> distinct (map p_Date plot_data)
     \<and> set (map p_Date plot_data) =
         {d. valid_date d \<and> date_key (water_year_start from_date) \<le> date_key d
             \<and> date_key d \<le> date_key to_date}
     \<and> Date ` set dataframe \<subseteq> set (map p_Date plot_data)
     \<and> (\<forall>row \<in> set plot_data.
          (p_Date row \<in> Date ` set dataframe \<longrightarrow>
             Readings row = series_count (map Vol (records_on (p_Date row) dataframe))
             \<and> Volume row = Some (series_sum (map Vol (records_on (p_Date row) dataframe)))
             \<and> Rate row =
                 Some (series_sum (map Vol (records_on (p_Date row) dataframe)) * (1000 / 86400)))
          \<and> (p_Date row \<notin> Date ` set dataframe \<longrightarrow>
             Readings row = 0 \<and> Volume row = None \<and> Rate row = None))"
proof -
  from plot_data_frame [OF assms] obtain plot_data f t where
    p: "process_plot_data dataframe = Inr plot_data"
    and f: "min_date (map Date dataframe) = Some f"
    and t: "max_date (map Date dataframe) = Some t"
    and b: "\<forall>r \<in> set dataframe. date_key f \<le> date_key (Date r)
            \<and> date_key (Date r) \<le> date_key t"
    and v: "valid_date f" "valid_date t"
    and d: "map p_Date plot_data = date_range (water_year_start f) t"
    and r: "\<forall>row \<in> set plot_data.
          Readings row = (case map_of (daily_counts_of dataframe) (p_Date row) of
                            None \<Rightarrow> 0 | Some (c, v) \<Rightarrow> c)
          \<and> Volume row = map_option snd (map_of (daily_counts_of dataframe) (p_Date row))
          \<and> Rate row = nan_mul (Volume row) (Some (1000 / 86400))"
    by blast
  have s: "set (map p_Date plot_data) =
         {d. valid_date d \<and> date_key (water_year_start f) \<le> date_key d
             \<and> date_key d \<le> date_key t}"
    unfolding d by (rule set_date_range [OF water_year_start_valid v(2)])
  have dist: "distinct (map p_Date plot_data)"
    unfolding d date_range_def by (rule distinct_dates_from [OF water_year_start_valid])
  have sub: "Date ` set dataframe \<subseteq> set (map p_Date plot_data)"
  proof
    fix x assume "x \<in> Date ` set dataframe"
    then obtain q where q: "q \<in> set dataframe" "x = Date q" by auto
    with assms(2) b have "valid_date x" "date_key f \<le> date_key x" "date_key x \<le> date_key t"
      by auto
    moreover have "date_key (water_year_start f) \<le> date_key f"
      by (rule water_year_start_le [OF v(1)])
    ultimately show "x \<in> set (map p_Date plot_data)" unfolding s by auto
  qed
  have rows: "\<forall>row \<in> set plot_data.
          (p_Date row \<in> Date ` set dataframe \<longrightarrow>
             Readings row = series_count (map Vol (records_on (p_Date row) dataframe))
             \<and> Volume row = Some (series_sum (map Vol (records_on (p_Date row) dataframe)))
             \<and> Rate row =
                 Some (series_sum (map Vol (records_on (p_Date row) dataframe)) * (1000 / 86400)))
          \<and> (p_Date row \<notin> Date ` set dataframe \<longrightarrow>
             Readings row = 0 \<and> Volume row = None \<and> Rate row = None)"
    using r by (simp add: map_of_daily_counts)
  from p f t d dist s sub rows show ?thesis
    by (intro exI [of _ plot_data] exI [of _ f] exI [of _ t]) simp
qed

theorem gap_filled_series_witness:
  "march_table \<noteq> []
   \<and> valid_date \<lparr>year = 2020, month = 3, day = 15\<rparr>
   \<and> valid_date \<lparr>year = 2020, month = 3, day = 17\<rparr>
   \<and> (\<exists>plot_data. process_plot_data march_table = Inr plot_data
        \<and> (\<exists>row \<in> set plot_data. p_Date row = \<lparr>year = 2020, month = 3, day = 16\<rparr>
              \<and> Readings row = 0 \<and> Volume row = None \<and> Rate row = None)
        \<and> (\<exists>row \<in> set plot_data. p_Date row = \<lparr>year = 2020, month = 3, day = 15\<rparr>
              \<and> Readings row = 2 \<and> Volume row = Some 10
              \<and> Rate row = Some (10 * (1000 / 86400))))"
proof -
  let ?d15 = "\<lparr>year = 2020, month = 3, day = 15\<rparr>"
  let ?d16 = "\<lparr>year = 2020, month = 3, day = 16\<rparr>"
  have m: "march_table \<noteq> []" by (simp add: march_table_def)
  have v: "valid_date ?d15" "valid_date ?d16" "valid_date \<lparr>year = 2020, month = 3, day = 17\<rparr>"
    by (simp_all add: valid_date_def days_in_month_def)
  from gap_filled_series [OF m march_table_valid] obtain plot_data where
    p: "process_plot_data march_table = Inr plot_data"
    and s: "set (map p_Date plot_data) =
         {d. valid_date d
             \<and> date_key (water_year_start \<lparr>year = 2020, month = 3, day = 15\<rparr>) \<le> date_key d
             \<and> date_key d \<le> date_key \<lparr>year = 2020, month = 3, day = 17\<rparr>}"
    and r: "\<forall>row \<in> set plot_data.
          (p_Date row \<in> Date ` set march_table \<longrightarrow>
             Readings row = series_count (map Vol (records_on (p_Date row) march_table))
             \<and> Volume row = Some (series_sum (map Vol (records_on (p_Date row) march_table)))
             \<and> Rate row =
                 Some (series_sum (map Vol (records_on (p_Date row) march_table)) * (1000 / 86400)))
          \<and> (p_Date row \<notin> Date ` set march_table \<longrightarrow>
             Readings row = 0 \<and> Volume row = None \<and> Rate row = None)"
    by (auto simp: march_table_min march_table_max)
  have "?d16 \<in> set (map p_Date plot_data)" "?d15 \<in> set (map p_Date plot_data)"
    unfolding s using v by (simp_all add: water_year_start_def date_key_def)
  then obtain r16 r15 where r16: "r16 \<in> set plot_data" "p_Date r16 = ?d16"
    and r15: "r15 \<in> set plot_data" "p_Date r15 = ?d15" by auto
  have "?d16 \<notin> Date ` set march_table" by (simp add: march_table_def volume_on_def)
  with r r16 have a: "Readings r16 = 0 \<and> Volume r16 = None \<and> Rate r16 = None" by auto
  have "?d15 \<in> Date ` set march_table" by (simp add: march_table_def volume_on_def)
  with r r15 have "Readings r15 = series_count (map Vol (records_on ?d15 march_table))
             \<and> Volume r15 = Some (series_sum (map Vol (records_on ?d15 march_table)))
             \<and> Rate r15 = Some (series_sum (map Vol (records_on ?d15 march_table)) * (1000 / 86400))"
    by auto
  then have b: "Readings r15 = 2 \<and> Volume r15 = Some 10 \<and> Rate r15 = Some (10 * (1000 / 86400))"
    by (simp add: records_on_def march_table_def volume_on_def series_count_def
        series_sum_def series_values_def)
  from m v p r16 r15 a b show ?thesis by blast
qed

section \<open>Properties of the monthly extraction statistics\<close>

lemma filter_map_key:
  assumes "distinct ks" and "\<And>k. f (g k) = k"
  shows "filter (\<lambda>r. f r = k) (map g ks) = (if k \<in> set ks then [g k] else [])"
  using assms(1)
proof (induction ks)
  case Nil
  then show ?case by simp
next
  case (Cons a ks)
  then show ?case using assms(2) by (auto simp: filter_empty_conv)
qed

lemma extraction_stats_rows:
  "e_rows (generate_extraction_stats dataframe) =
     map (\<lambda>k. \<lparr>e_Month = k,
                MinExtraction = np_round 3 (Min (set (positive_volumes_in k dataframe))),
                MeanExtraction = np_round 1 (sum_list (positive_volumes_in k dataframe)
                                   / real (length (positive_volumes_in k dataframe))),
                MaxExtraction = np_round 1 (Max (set (positive_volumes_in k dataframe)))\<rparr>)
       (sort (remdups (map (\<lambda>r. month_key (ts_date (DateTime r)))
          (filter (\<lambda>r. nan_lt (Some 0) (Vol r)) dataframe))))"
proof -
  let ?pos = "filter (\<lambda>r. nan_lt (Some 0) (Vol r)) dataframe"
  let ?key = "\<lambda>r. month_key (ts_date (DateTime r))"
  have sv: "series_values (map Vol (filter (\<lambda>r. nan_lt (Some 0) (Vol r) \<and> ?key r = k) dataframe))
      = positive_volumes_in k dataframe" for k
  proof -
    have "series_values (map Vol (filter (\<lambda>r. ?key r = k) ?pos)) = positive_volumes_in k dataframe"
      unfolding positive_volumes_in_def
      by (rule series_values_all_Some) (auto simp: nan_lt_pos_iff)
    then show ?thesis by simp
  qed
  show ?thesis
  proof (cases "?pos = []")
    case True
    then show ?thesis by (simp add: generate_extraction_stats_def)
  next
    case False
    then have "1 \<le> length ?pos" by (cases ?pos) auto
    then show ?thesis
      by (simp add: generate_extraction_stats_def groupby_def Let_def sv comp_def)
  qed
qed

lemma extraction_stats_index:
  "Month_is_index (generate_extraction_stats dataframe) \<longleftrightarrow>
   filter (\<lambda>r. nan_lt (Some 0) (Vol r)) dataframe \<noteq> []"
proof (cases "filter (\<lambda>r. nan_lt (Some 0) (Vol r)) dataframe = []")
  case True
  then show ?thesis by (simp add: generate_extraction_stats_def)
next
  case False
  then have "1 \<le> length (filter (\<lambda>r. nan_lt (Some 0) (Vol r)) dataframe)"
    by (cases "filter (\<lambda>r. nan_lt (Some 0) (Vol r)) dataframe") auto
  with False show ?thesis by (simp add: generate_extraction_stats_def Let_def)
qed

lemma extraction_month_iff:
  "k \<in> set (sort (remdups (map (\<lambda>r. month_key (ts_date (DateTime r)))
          (filter (\<lambda>r. nan_lt (Some 0) (Vol r)) dataframe))))
   \<longleftrightarrow> positive_volumes_in k dataframe \<noteq> []"
  by (auto simp: positive_volumes_in_def filter_empty_conv)

lemma merged_with_extraction:
  "concat (map (\<lambda>l.
      (case filter (\<lambda>r. e_Month r = m_Month l) (e_rows (generate_extraction_stats dataframe)) of
         [] \<Rightarrow> [(m_Month l, merge_row l None)]
       | rs \<Rightarrow> map (\<lambda>r. (m_Month l, merge_row l (Some r))) rs)) monthly) =
   map (\<lambda>l. (m_Month l, merge_row l
            (if positive_volumes_in (m_Month l) dataframe = [] then None
             else Some \<lparr>e_Month = m_Month l,
                MinExtraction = np_round 3 (Min (set (positive_volumes_in (m_Month l) dataframe))),
                MeanExtraction = np_round 1 (sum_list (positive_volumes_in (m_Month l) dataframe)
                                   / real (length (positive_volumes_in (m_Month l) dataframe))),
                MaxExtraction = np_round 1 (Max (set (positive_volumes_in (m_Month l) dataframe)))\<rparr>)))
       monthly"
proof -
  let ?ks = "sort (remdups (map (\<lambda>r. month_key (ts_date (DateTime r)))
          (filter (\<lambda>r. nan_lt (Some 0) (Vol r)) dataframe)))"
  let ?g = "\<lambda>k. \<lparr>e_Month = k,
                MinExtraction = np_round 3 (Min (set (positive_volumes_in k dataframe))),
                MeanExtraction = np_round 1 (sum_list (positive_volumes_in k dataframe)
                                   / real (length (positive_volumes_in k dataframe))),
                MaxExtraction = np_round 1 (Max (set (positive_volumes_in k dataframe)))\<rparr>"
  have d: "distinct ?ks" by simp
  have f: "filter (\<lambda>r. e_Month r = k) (map ?g ?ks) = (if k \<in> set ?ks then [?g k] else [])" for k
    by (rule filter_map_key [OF d]) simp
  have one: "(case filter (\<lambda>r. e_Month r = m_Month l) (map ?g ?ks) of
          [] \<Rightarrow> [(m_Month l, merge_row l None)]
        | rs \<Rightarrow> map (\<lambda>r. (m_Month l, merge_row l (Some r))) rs) =
      [(m_Month l, merge_row l (if positive_volumes_in (m_Month l) dataframe = [] then None
             else Some (?g (m_Month l))))]" for l
    unfolding f using extraction_month_iff [of "m_Month l" dataframe] by auto
  show ?thesis
    unfolding extraction_stats_rows one
    by (induction monthly) auto
qed

lemma spike_detection_Date: "map Date (spike_detection dataframe) = map Date dataframe"
proof -
  obtain mean sd where p: "calculate_spike_parameters dataframe = (mean, sd)"
    by (cases "calculate_spike_parameters dataframe")
  have "map Date (detect_spikes dataframe mean sd) = map Date dataframe"
    by (auto simp: detect_spikes_def Let_def add_spike_columns_def comp_def)
  with p show ?thesis by (simp add: spike_detection_def)
qed

lemma daily_stats_months:
  "map d_Month (generate_daily_stats dataframe) =
   map month_key (sort_key date_key (remdups (map Date dataframe)))"
  by (simp add: generate_daily_stats_def groupby_def comp_def month_key_def)

lemma monthly_stats_months:
  "map m_Month (generate_monthly_stats dataframe) = sort (remdups (map d_Month dataframe))"
  by (simp add: generate_monthly_stats_def groupby_def comp_def)

lemma monthly_table_months:
  "map m_Month (generate_monthly_stats (generate_daily_stats (spike_detection dataframe))) =
   sort (remdups (map month_key (sort_key date_key (remdups (map Date dataframe)))))"
proof -
  have "remdups (map Date (spike_detection dataframe)) = remdups (map Date dataframe)"
    by (simp only: spike_detection_Date)
  then show ?thesis by (simp add: monthly_stats_months daily_stats_months)
qed

lemma spike_detection_short:
  "length dataframe \<le> 100 \<Longrightarrow> spike_detection dataframe = map add_spike_columns dataframe"
  by (cases "calculate_spike_parameters dataframe")
    (simp add: spike_detection_def detect_spikes_def Let_def)

lemma april_monthly:
  "generate_monthly_stats (generate_daily_stats (map add_spike_columns april_table)) =
   [\<lparr>m_Month = ''2020-03'', MeasType = ''Volume'', DaysWithData = 2, TotalReports = 3,
     Spikes_5sd = 0, Spikes_10sd = 0, Spikes_20sd = 0\<rparr>,
    \<lparr>m_Month = ''2020-04'', MeasType = ''Volume'', DaysWithData = 1, TotalReports = 1,
     Spikes_5sd = 0, Spikes_10sd = 0, Spikes_20sd = 0\<rparr>]"
  by code_simp

lemma zero_monthly:
  "generate_monthly_stats (generate_daily_stats (map add_spike_columns zero_table)) =
   [\<lparr>m_Month = ''2020-04'', MeasType = ''Volume'', DaysWithData = 1, TotalReports = 1,
     Spikes_5sd = 0, Spikes_10sd = 0, Spikes_20sd = 0\<rparr>]"
  by code_simp

lemma april_positive:
  "positive_volumes_in ''2020-03'' april_table = [4, 6, 3]"
  "positive_volumes_in ''2020-04'' april_table = []"
  "positive_volumes_in ''2020-04'' zero_table = []"
  by code_simp+

lemma april_has_positive:
  "filter (\<lambda>r. nan_lt (Some 0) (Vol r)) april_table \<noteq> []"
  "filter (\<lambda>r. nan_lt (Some 0) (Vol r)) zero_table = []"
  by (simp_all add: april_table_def march_table_def zero_table_def volume_on_def)

lemma round_examples:
  "np_round 3 3 = 3" "np_round (Suc 0) (13 / 3) = 43 / 10" "np_round (Suc 0) 6 = 6"
  by (simp_all add: np_round_def rint_def Let_def)

text \<open>
  Claim C7. The extraction statistics are computed from the records of the filtered
  table, not from daily totals: for a month they are the minimum, mean and maximum
  (rounded to 3, 1 and 1 decimals) of the volumes above 0 of the records in that
  month. The merge is a left join on the month key: the merged table has one row for
  each row of the monthly statistics table, in its order, with all the columns of that
  row unchanged, and with the extraction statistics of its month, which are missing
  (not 0) when the month has no record with a volume above 0. The monthly statistics
  table has one row for each month of the filtered table, in ascending order. The
  merged table is indexed by the month keys, unless no record at all has a volume above
  0: then it has a \<open>RangeIndex\<close> and no month label.
\<close>

theorem monthly_extraction_statistics:
  "c_rows (combine_monthly_stats dataframe1 (generate_extraction_stats vol_data2)) =
     map (\<lambda>l. \<lparr>c_MeasType = MeasType l, c_DaysWithData = DaysWithData l,
                c_TotalReports = TotalReports l,
                c_MinExtraction =
                  (if positive_volumes_in (m_Month l) vol_data2 = [] then None
                   else Some (np_round 3 (Min (set (positive_volumes_in (m_Month l) vol_data2))))),
                c_MeanExtraction =
                  (if positive_volumes_in (m_Month l) vol_data2 = [] then None
                   else Some (np_round 1 (sum_list (positive_volumes_in (m_Month l) vol_data2)
                          / real (length (positive_volumes_in (m_Month l) vol_data2))))),
                c_MaxExtraction =
                  (if positive_volumes_in (m_Month l) vol_data2 = [] then None
                   else Some (np_round 1 (Max (set (positive_volumes_in (m_Month l) vol_data2))))),
                c_Spikes_5sd = Spikes_5sd l, c_Spikes_10sd = Spikes_10sd l,
                c_Spikes_20sd = Spikes_20sd l\<rparr>) dataframe1
   \<and> c_index (combine_monthly_stats dataframe1 (generate_extraction_stats vol_data2)) =
       (if filter (\<lambda>r. nan_lt (Some 0) (Vol r)) vol_data2 = []
        then RangeIndex (length dataframe1) else Month_index (map m_Month dataframe1))
   \<and> monthly_statistics vol_data2 =
       combine_monthly_stats
         (generate_monthly_stats (generate_daily_stats (spike_detection vol_data2)))
         (generate_extraction_stats vol_data2)
   \<and> sorted (map m_Month (generate_monthly_stats (generate_daily_stats (spike_detection vol_data2))))
   \<and> distinct (map m_Month (generate_monthly_stats (generate_daily_stats (spike_detection vol_data2))))
   \<and> set (map m_Month (generate_monthly_stats (generate_daily_stats (spike_detection vol_data2))))
       = (\<lambda>r. month_key (Date r)) ` set vol_data2
   \<and> (\<forall>k. positive_volumes_in k vol_data2 =
         map (the \<circ> Vol) (filter (\<lambda>r. month_key (ts_date (DateTime r)) = k
               \<and> (\<exists>v. Vol r = Some v \<and> 0 < v)) vol_data2))"
proof (intro conjI)
  show "c_rows (combine_monthly_stats dataframe1 (generate_extraction_stats vol_data2)) =
     map (\<lambda>l. \<lparr>c_MeasType = MeasType l, c_DaysWithData = DaysWithData l,
                c_TotalReports = TotalReports l,
                c_MinExtraction =
                  (if positive_volumes_in (m_Month l) vol_data2 = [] then None
                   else Some (np_round 3 (Min (set (positive_volumes_in (m_Month l) vol_data2))))),
                c_MeanExtraction =
                  (if positive_volumes_in (m_Month l) vol_data2 = [] then None
                   else Some (np_round 1 (sum_list (positive_volumes_in (m_Month l) vol_data2)
                          / real (length (positive_volumes_in (m_Month l) vol_data2))))),
                c_MaxExtraction =
                  (if positive_volumes_in (m_Month l) vol_data2 = [] then None
                   else Some (np_round 1 (Max (set (positive_volumes_in (m_Month l) vol_data2))))),
                c_Spikes_5sd = Spikes_5sd l, c_Spikes_10sd = Spikes_10sd l,
                c_Spikes_20sd = Spikes_20sd l\<rparr>) dataframe1"
    unfolding combine_monthly_stats_def Let_def merged_with_extraction
    by (simp add: merge_row_def comp_def)
  show "c_index (combine_monthly_stats dataframe1 (generate_extraction_stats vol_data2)) =
       (if filter (\<lambda>r. nan_lt (Some 0) (Vol r)) vol_data2 = []
        then RangeIndex (length dataframe1) else Month_index (map m_Month dataframe1))"
    unfolding combine_monthly_stats_def Let_def merged_with_extraction
    by (simp add: extraction_stats_index comp_def)
  show "monthly_statistics vol_data2 =
       combine_monthly_stats
         (generate_monthly_stats (generate_daily_stats (spike_detection vol_data2)))
         (generate_extraction_stats vol_data2)"
    by (simp add: monthly_statistics_def Let_def)
  show "sorted (map m_Month (generate_monthly_stats (generate_daily_stats (spike_detection vol_data2))))"
    "distinct (map m_Month (generate_monthly_stats (generate_daily_stats (spike_detection vol_data2))))"
    unfolding monthly_table_months by simp_all
  show "set (map m_Month (generate_monthly_stats (generate_daily_stats (spike_detection vol_data2))))
       = (\<lambda>r. month_key (Date r)) ` set vol_data2"
    unfolding monthly_table_months by auto
  show "\<forall>k. positive_volumes_in k vol_data2 =
         map (the \<circ> Vol) (filter (\<lambda>r. month_key (ts_date (DateTime r)) = k
               \<and> (\<exists>v. Vol r = Some v \<and> 0 < v)) vol_data2)"
    by (auto simp: positive_volumes_in_def nan_lt_pos_iff intro!: arg_cong [of _ _ "map (the \<circ> Vol)"] filter_cong)
qed

theorem monthly_extraction_statistics_witness:
  "monthly_statistics april_table =
     \<lparr>c_index = Month_index [''2020-03'', ''2020-04''],
      c_rows =
        [\<lparr>c_MeasType = ''Volume'', c_DaysWithData = 2, c_TotalReports = 3,
          c_MinExtraction = Some 3, c_MeanExtraction = Some (43 / 10),
          c_MaxExtraction = Some 6,
          c_Spikes_5sd = 0, c_Spikes_10sd = 0, c_Spikes_20sd = 0\<rparr>,
         \<lparr>c_MeasType = ''Volume'', c_DaysWithData = 1, c_TotalReports = 1,
          c_MinExtraction = None, c_MeanExtraction = None, c_MaxExtraction = None,
          c_Spikes_5sd = 0, c_Spikes_10sd = 0, c_Spikes_20sd = 0\<rparr>]\<rparr>
   \<and> monthly_statistics zero_table =
     \<lparr>c_index = RangeIndex 1,
      c_rows =
        [\<lparr>c_MeasType = ''Volume'', c_DaysWithData = 1, c_TotalReports = 1,
          c_MinExtraction = None, c_MeanExtraction = None, c_MaxExtraction = None,
          c_Spikes_5sd = 0, c_Spikes_10sd = 0, c_Spikes_20sd = 0\<rparr>]\<rparr>"
proof -
  have la: "length april_table \<le> 100" and lz: "length zero_table \<le> 100"
    by (simp_all add: april_table_def march_table_def zero_table_def)
  note ma = april_monthly [folded spike_detection_short [OF la]]
  note mz = zero_monthly [folded spike_detection_short [OF lz]]
  note Ta = monthly_extraction_statistics
    [of "generate_monthly_stats (generate_daily_stats (spike_detection april_table))" april_table]
  note Tz = monthly_extraction_statistics
    [of "generate_monthly_stats (generate_daily_stats (spike_detection zero_table))" zero_table]
  have ra: "c_rows (monthly_statistics april_table) =
        [\<lparr>c_MeasType = ''Volume'', c_DaysWithData = 2, c_TotalReports = 3,
          c_MinExtraction = Some 3, c_MeanExtraction = Some (43 / 10),
          c_MaxExtraction = Some 6,
          c_Spikes_5sd = 0, c_Spikes_10sd = 0, c_Spikes_20sd = 0\<rparr>,
         \<lparr>c_MeasType = ''Volume'', c_DaysWithData = 1, c_TotalReports = 1,
          c_MinExtraction = None, c_MeanExtraction = None, c_MaxExtraction = None,
          c_Spikes_5sd = 0, c_Spikes_10sd = 0, c_Spikes_20sd = 0\<rparr>]"
    using Ta by (simp add: ma april_positive round_examples)
  have ia: "c_index (monthly_statistics april_table) = Month_index [''2020-03'', ''2020-04'']"
    using Ta april_has_positive(1) by (simp add: ma)
  have rz: "c_rows (monthly_statistics zero_table) =
        [\<lparr>c_MeasType = ''Volume'', c_DaysWithData = 1, c_TotalReports = 1,
          c_MinExtraction = None, c_MeanExtraction = None, c_MaxExtraction = None,
          c_Spikes_5sd = 0, c_Spikes_10sd = 0, c_Spikes_20sd = 0\<rparr>]"
    using Tz by (simp add: mz april_positive)
  have iz: "c_index (monthly_statistics zero_table) = RangeIndex 1"
    using Tz april_has_positive(2) by (simp add: mz)
  show ?thesis
    using ra ia rz iz by (intro conjI combined_table.equality) simp_all
qed

end
